theory Spec2Isabelle
  imports Main "HOL-Library.Word"
begin

unbundle bit_operations_syntax

section \<open>Machine types, faults and arrays\<close>

text \<open>
  The scheduler is kernel C: \<open>u32\<close> and \<open>unsigned int\<close> are 32-bit words whose
  arithmetic wraps, \<open>int\<close> values (slot and CU indices, \<open>-1\<close> for "none") are
  modelled as HOL integers with the conversions written out, and device addresses
  are 64-bit pointers.  An access outside a fixed-size array, a read past the end
  of a packet, a division by zero and a NULL dereference are faults of the model.
\<close>

type_synonym u32 = "32 word"
type_synonym ioaddr = "64 word"

datatype fault = IndexOutOfBounds | NullPointer | DivideByZero | PacketOverrun

definition array_read :: "'a list \<Rightarrow> nat \<Rightarrow> fault + 'a" where
  "array_read xs i = (if i < length xs then Inr (xs ! i) else Inl IndexOutOfBounds)"

definition array_write :: "'a list \<Rightarrow> nat \<Rightarrow> 'a \<Rightarrow> fault + 'a list" where
  "array_write xs i v = (if i < length xs then Inr (xs[i := v]) else Inl IndexOutOfBounds)"

definition packet_read :: "u32 list \<Rightarrow> nat \<Rightarrow> fault + u32" where
  "packet_read ws i = (if i < length ws then Inr (ws ! i) else Inl PacketOverrun)"

text \<open>
  Modelled from the spec: the array bounds of the driver headers
  (\<open>MAX_SLOTS\<close>, \<open>MAX_CUS\<close>, \<open>MAX_U32_SLOT_MASKS\<close>, \<open>MAX_U32_CU_MASKS\<close>) are not
  part of the sources; the data model gives \<open>submitted_cmds[128]\<close>,
  \<open>cu_addr_map[128]\<close>, \<open>slot_status[4]\<close> and \<open>cu_status[4]\<close>.
\<close>

definition MAX_SLOTS :: nat where "MAX_SLOTS = 128"
definition MAX_CUS :: nat where "MAX_CUS = 128"
definition MAX_U32_SLOT_MASKS :: nat where "MAX_U32_SLOT_MASKS = 4"
definition MAX_U32_CU_MASKS :: nat where "MAX_U32_CU_MASKS = 4"

definition XOCL_U32_MASK :: u32 where "XOCL_U32_MASK = 0xFFFFFFFF"

section \<open>Command packets\<close>

datatype ert_cmd_state =
    ERT_CMD_STATE_NEW
  | ERT_CMD_STATE_QUEUED
  | ERT_CMD_STATE_RUNNING
  | ERT_CMD_STATE_COMPLETED
  | ERT_CMD_STATE_ERROR
  | ERT_CMD_STATE_ABORT

text \<open>
  Modelled from the spec: the packet structs of \<open>ert.h\<close> and \<open>sched_exec.h\<close> are
  not part of the sources.  A packet is a header word with the bit fields
  \<open>state:4\<close>, \<open>extra_cu_masks:2\<close> (inside the custom bits), \<open>count:11\<close>, \<open>opcode:5\<close>,
  \<open>type:4\<close>, followed by the payload words \<open>data\<close>.  The scheduler only uses the
  named accessors, so each bit field is a word of its width.
\<close>

record ert_packet =
  pkt_state :: ert_cmd_state
  pkt_extra_cu_masks :: "2 word"
  pkt_count :: "11 word"
  pkt_opcode :: "5 word"
  pkt_type :: "4 word"
  pkt_data :: "u32 list"

text \<open>
  The opcode and type constants, the command-queue geometry, the register offsets
  and the header layout come from \<open>ert.h\<close>; they are parameters of the model.
  The feature bits of a CONFIGURE packet are given by their bit positions in the
  features word.
\<close>

record ert_abi =
  ERT_START_CU :: "5 word"
  ERT_START_KERNEL :: "5 word"
  ERT_CONFIGURE :: "5 word"
  ERT_WRITE :: "5 word"
  ERT_KDS_LOCAL :: "4 word"
  ERT_CQ_SIZE :: u32
  ERT_CQ_BASE_ADDR :: u32
  ERT_STATUS_REGISTER_ADDR :: u32
  ERT_CQ_STATUS_REGISTER_ADDR :: u32
  header_word :: "ert_packet \<Rightarrow> u32"
  ert_bit :: nat
  polling_bit :: nat
  cq_int_bit :: nat
  cdma_bit :: nat
  dsa52_bit :: nat

definition opcode :: "ert_packet \<Rightarrow> u32" where
  "opcode p = ucast (pkt_opcode p)"

definition type_of_cmd :: "ert_packet \<Rightarrow> u32" where
  "type_of_cmd p = ucast (pkt_type p)"

definition payload_size :: "ert_packet \<Rightarrow> u32" where
  "payload_size p = ucast (pkt_count p)"

definition packet_size :: "ert_packet \<Rightarrow> u32" where
  "packet_size p = payload_size p + 1"

definition cu_masks :: "ert_abi \<Rightarrow> ert_packet \<Rightarrow> u32" where
  "cu_masks K p =
     (if opcode p \<noteq> ucast (ERT_START_KERNEL K) then 0
      else 1 + ucast (pkt_extra_cu_masks p))"

definition regmap_size :: "ert_abi \<Rightarrow> ert_packet \<Rightarrow> u32" where
  "regmap_size K p = payload_size p - cu_masks K p"

section \<open>Bit searches and index arithmetic\<close>

text \<open>
  The kernel's \<open>ffs\<close> is the 1-based position of the least significant set bit
  (0 for the zero word) and \<open>ffz\<close> is the 0-based position of the least
  significant zero bit.
\<close>

definition ffs :: "u32 \<Rightarrow> int" where
  "ffs w = (case find (\<lambda>i. bit w i) [0..<32] of None \<Rightarrow> 0 | Some i \<Rightarrow> int i + 1)"

definition ffz :: "u32 \<Rightarrow> int" where
  "ffz w = ffs (NOT w) - 1"

definition ffs_or_neg_one :: "u32 \<Rightarrow> int" where
  "ffs_or_neg_one msk = (if msk = 0 then - 1 else ffs msk - 1)"

definition ffz_or_neg_one :: "u32 \<Rightarrow> int" where
  "ffz_or_neg_one msk = (if msk = XOCL_U32_MASK then - 1 else ffz msk)"

definition cu_mask_idx :: "u32 \<Rightarrow> u32" where
  "cu_mask_idx cu_idx = drop_bit 5 cu_idx"

definition cu_idx_in_mask :: "u32 \<Rightarrow> u32" where
  "cu_idx_in_mask cu_idx = cu_idx - push_bit 5 (cu_mask_idx cu_idx)"

definition cu_idx_from_mask :: "u32 \<Rightarrow> u32 \<Rightarrow> u32" where
  "cu_idx_from_mask cu_idx mask_idx = cu_idx + push_bit 5 mask_idx"

definition slot_mask_idx :: "u32 \<Rightarrow> u32" where
  "slot_mask_idx slot_idx = drop_bit 5 slot_idx"

definition slot_idx_in_mask :: "u32 \<Rightarrow> u32" where
  "slot_idx_in_mask slot_idx = slot_idx - push_bit 5 (slot_mask_idx slot_idx)"

definition slot_idx_from_mask_idx :: "u32 \<Rightarrow> u32 \<Rightarrow> u32" where
  "slot_idx_from_mask_idx slot_idx mask_idx = slot_idx + push_bit 5 mask_idx"

section \<open>The execution core of a device\<close>

datatype sched_ops = mb_ops | penguin_ops | ps_ert_ops

text \<open>
  \<open>struct exec_core\<close> of \<open>mb_scheduler.c\<close>.  The zocl driver's core
  (\<open>sched_exec.c\<close>) has the same scheduling fields, without \<open>cu_addr_map\<close> and
  with the two extra flags \<open>cu_dma\<close> and \<open>cu_isr\<close>; one record serves both.
  \<open>submitted_cmds\<close> holds command handles, \<open>None\<close> for NULL.
\<close>

record exec_core =
  base :: ioaddr
  submitted_cmds :: "nat option list"
  num_slots :: u32
  num_cus :: u32
  cu_shift_offset :: u32
  cu_base_addr :: u32
  polling_mode :: u32
  cq_interrupt :: u32
  configured :: bool
  cu_addr_map :: "u32 list"
  slot_status :: "u32 list"
  num_slot_masks :: u32
  cu_status :: "u32 list"
  num_cu_masks :: u32
  sr0 :: u32
  sr1 :: u32
  sr2 :: u32
  sr3 :: u32
  cu_dma :: u32
  cu_isr :: u32
  ops :: sched_ops

definition slot_size :: "ert_abi \<Rightarrow> exec_core \<Rightarrow> fault + u32" where
  "slot_size K exec =
     (if num_slots exec = 0 then Inl DivideByZero
      else Inr (ERT_CQ_SIZE K div num_slots exec))"

definition cu_idx_to_addr :: "exec_core \<Rightarrow> u32 \<Rightarrow> fault + u32" where
  "cu_idx_to_addr exec cu_idx = array_read (cu_addr_map exec) (unat cu_idx)"

section \<open>Bitmap allocator\<close>

function acquire_slot_idx_from :: "nat \<Rightarrow> exec_core \<Rightarrow> fault + (int \<times> exec_core)" where
  "acquire_slot_idx_from mask_idx exec =
     (if mask_idx < unat (num_slot_masks exec) then
        (case array_read (slot_status exec) mask_idx of
           Inl f \<Rightarrow> Inl f
         | Inr msk \<Rightarrow>
             (let slot_idx = (word_of_int (ffz_or_neg_one msk) :: u32) in
              if slot_idx = - 1
                 \<or> num_slots exec \<le> slot_idx_from_mask_idx slot_idx (of_nat mask_idx)
              then acquire_slot_idx_from (mask_idx + 1) exec
              else Inr (sint (slot_idx_from_mask_idx slot_idx (of_nat mask_idx)),
                        exec\<lparr>slot_status :=
                          (slot_status exec)[mask_idx := msk XOR push_bit (unat slot_idx) 1]\<rparr>)))
      else Inr (- 1, exec))"
  by pat_completeness auto
termination
  by (relation "measure (\<lambda>(mask_idx, exec). unat (num_slot_masks exec) - mask_idx)") auto

declare acquire_slot_idx_from.simps [simp del]

definition acquire_slot_idx :: "exec_core \<Rightarrow> fault + (int \<times> exec_core)" where
  "acquire_slot_idx exec = acquire_slot_idx_from 0 exec"

definition release_slot_idx :: "exec_core \<Rightarrow> u32 \<Rightarrow> fault + exec_core" where
  "release_slot_idx exec slot_idx =
     (let mask_idx = slot_mask_idx slot_idx;
          pos = slot_idx_in_mask slot_idx
      in case array_read (slot_status exec) (unat mask_idx) of
           Inl f \<Rightarrow> Inl f
         | Inr msk \<Rightarrow>
             Inr (exec\<lparr>slot_status :=
                    (slot_status exec)[unat mask_idx := msk XOR push_bit (unat pos) 1]\<rparr>))"

text \<open>
  \<open>get_free_cu\<close> of \<open>mb_scheduler.c\<close>: the number of masks scanned is
  \<open>cu_masks(xcmd)\<close>, taken from the command's packet.
\<close>

function get_free_cu_from ::
  "nat \<Rightarrow> nat \<Rightarrow> ert_packet \<Rightarrow> exec_core \<Rightarrow> fault + (int \<times> exec_core)" where
  "get_free_cu_from mask_idx num_masks p exec =
     (if mask_idx < num_masks then
        (case packet_read (pkt_data p) mask_idx of
           Inl f \<Rightarrow> Inl f
         | Inr cmd_mask \<Rightarrow>
        (case array_read (cu_status exec) mask_idx of
           Inl f \<Rightarrow> Inl f
         | Inr busy_mask \<Rightarrow>
             (let cu_idx = ffs_or_neg_one ((cmd_mask OR busy_mask) XOR busy_mask) in
              if 0 \<le> cu_idx then
                Inr (sint (cu_idx_from_mask (word_of_int cu_idx) (of_nat mask_idx)),
                     exec\<lparr>cu_status :=
                       (cu_status exec)[mask_idx := busy_mask XOR push_bit (nat cu_idx) 1]\<rparr>)
              else get_free_cu_from (mask_idx + 1) num_masks p exec)))
      else Inr (- 1, exec))"
  by pat_completeness auto
termination
  by (relation "measure (\<lambda>(mask_idx, num_masks, p, exec). num_masks - mask_idx)") auto

declare get_free_cu_from.simps [simp del]

definition get_free_cu :: "ert_abi \<Rightarrow> ert_packet \<Rightarrow> exec_core \<Rightarrow> fault + (int \<times> exec_core)" where
  "get_free_cu K p exec = get_free_cu_from 0 (unat (cu_masks K p)) p exec"

text \<open>
  \<open>get_free_cu\<close> of \<open>sched_exec.c\<close>: the same loop body, but the number of
  masks scanned is the core's \<open>num_cu_masks\<close>.
\<close>

definition zocl_get_free_cu :: "ert_packet \<Rightarrow> exec_core \<Rightarrow> fault + (int \<times> exec_core)" where
  "zocl_get_free_cu p exec = get_free_cu_from 0 (unat (num_cu_masks exec)) p exec"



section \<open>Initial state of the execution core\<close>

text \<open>
  The second half of \<open>reset_exec\<close>, which resets the fields of the core.  The
  first half, which recycles stale commands, is part of \<open>reset_exec\<close> below.
\<close>

definition reset_exec_core :: "exec_core \<Rightarrow> exec_core" where
  "reset_exec_core exec = exec\<lparr>
     submitted_cmds := replicate MAX_SLOTS None,
     num_slots := 16,
     num_cus := 0,
     cu_shift_offset := 0,
     cu_base_addr := 0,
     polling_mode := 1,
     cq_interrupt := 0,
     configured := False,
     ops := penguin_ops,
     cu_addr_map := replicate MAX_CUS 0,
     slot_status := replicate MAX_U32_SLOT_MASKS 0,
     num_slot_masks := 1,
     cu_status := replicate MAX_U32_CU_MASKS 0,
     num_cu_masks := 0,
     sr0 := 0, sr1 := 0, sr2 := 0, sr3 := 0\<rparr>"

text \<open>
  The core as \<open>mb_scheduler_probe\<close> leaves it: zero-filled by \<open>devm_kzalloc\<close>,
  the BAR address stored, then \<open>reset_exec\<close> (no command exists yet).
\<close>

definition mb_scheduler_probe :: "ioaddr \<Rightarrow> exec_core" where
  "mb_scheduler_probe base_addr = reset_exec_core
     \<lparr>base = base_addr, submitted_cmds = replicate MAX_SLOTS None,
      num_slots = 0, num_cus = 0, cu_shift_offset = 0, cu_base_addr = 0,
      polling_mode = 0, cq_interrupt = 0, configured = False,
      cu_addr_map = replicate MAX_CUS 0,
      slot_status = replicate MAX_U32_SLOT_MASKS 0, num_slot_masks = 0,
      cu_status = replicate MAX_U32_CU_MASKS 0, num_cu_masks = 0,
      sr0 = 0, sr1 = 0, sr2 = 0, sr3 = 0,
      cu_dma = 0, cu_isr = 0, ops = penguin_ops\<rparr>"

section \<open>Packet size on the device-poller path\<close>

text \<open>
  The opcode constants, the command-queue size, the register offsets of the ERT
  hardware block and the positions of the feature bits of a CONFIGURE packet come
  from \<open>sched_exec.h\<close>; they are parameters of the zocl model.
\<close>

record sched_abi =
  OP_START_CU :: "5 word"
  OP_START_KERNEL :: "5 word"
  OP_CONFIGURE :: "5 word"
  OP_STOP :: "5 word"
  OP_ABORT :: "5 word"
  CQ_SIZE :: u32
  ERT_CQ_SLOT_SIZE_REG :: u32
  ERT_CU_OFFSET_REG :: u32
  ERT_CQ_NUM_OF_SLOTS_REG :: u32
  ERT_CU_BASE_ADDR_REG :: u32
  ERT_CQ_BASE_ADDR_REG :: u32
  ERT_NUM_OF_CU_REG :: u32
  ERT_CU_DMA_ENABLE :: u32
  ERT_HOST_INT_ENABLE :: u32
  z_ert_bit :: nat
  z_polling_bit :: nat
  z_cq_int_bit :: nat
  z_cu_dma_bit :: nat
  z_cu_isr_bit :: nat



section \<open>Commands and the scheduler state of the xocl driver\<close>

text \<open>
  The feature-ROM queries \<open>xocl_mb_sched_on\<close>, \<open>xocl_cdma_on\<close> and
  \<open>xocl_dsa_version\<close> belong to the device layer; their answers are parameters.
\<close>

record xocl_dev =
  mb_sched_on :: bool
  cdma_on :: bool
  dsa_version :: u32

text \<open>
  \<open>struct xocl_cmd\<close>.  Commands, buffer objects and clients are referred to by
  handles (natural numbers).  \<open>cmd_chain\<close> is the eight-entry union of \<open>chain\<close> and
  \<open>deps\<close>.  The model has one device and one scheduler, so the \<open>exec\<close> and \<open>xs\<close>
  pointers of a command are implicit.
\<close>

record xocl_cmd =
  cmd_bo :: nat
  cmd_client :: nat
  cmd_state :: ert_cmd_state
  cmd_id :: nat
  cmd_cu_idx :: int
  cmd_slot_idx :: int
  cmd_chain_count :: u32
  cmd_wait_count :: u32
  cmd_chain :: "nat option list"
  cmd_packet :: ert_packet

text \<open>
  Everything the scheduler thread reads and writes: the device's core, the command
  objects, the scheduler's \<open>poll\<close> and \<open>error\<close> fields, the three command lists,
  the \<open>metadata.active\<close> field of the buffer objects, the client contexts of the
  device, the wake-ups of the poll wait queue, the MMIO writes in the order they
  are issued, what the device registers currently read as (\<open>mmio_regs\<close>), the
  counter of pending commands, and the allocator behind \<open>kmalloc\<close> with the
  static id counter of \<open>get_free_xocl_cmd\<close>.
\<close>

record xocl_state =
  exec :: exec_core
  cmds :: "nat \<Rightarrow> xocl_cmd option"
  xs_poll :: u32
  xs_error :: u32
  pending_cmds :: "nat list"
  command_queue :: "nat list"
  free_cmds :: "nat list"
  bo_active :: "nat \<Rightarrow> nat option"
  bo_unrefs :: "nat list"
  ctx_list :: "nat list"
  client_trigger :: "nat \<Rightarrow> int"
  client_abort :: "nat \<Rightarrow> bool"
  client_outstanding :: "nat \<Rightarrow> int"
  xdev_outstanding :: int
  poll_wakeups :: nat
  mmio_writes :: "(ioaddr \<times> u32) list"
  mmio_regs :: "ioaddr \<Rightarrow> u32"
  num_pending :: int
  heap_next :: nat
  id_count :: nat

text \<open>Sequencing: a fault ends the computation, a value is passed on.\<close>

abbreviation fbind :: "fault + 'a \<Rightarrow> ('a \<Rightarrow> fault + 'b) \<Rightarrow> fault + 'b" where
  "fbind m f \<equiv> (case m of Inl e \<Rightarrow> Inl e | Inr v \<Rightarrow> f v)"

definition get_cmd :: "xocl_state \<Rightarrow> nat \<Rightarrow> fault + xocl_cmd" where
  "get_cmd s x = (case cmds s x of None \<Rightarrow> Inl NullPointer | Some c \<Rightarrow> Inr c)"

definition put_cmd :: "nat \<Rightarrow> xocl_cmd \<Rightarrow> xocl_state \<Rightarrow> xocl_state" where
  "put_cmd x c s = s\<lparr>cmds := (cmds s)(x \<mapsto> c)\<rparr>"

definition set_cmd_int_state :: "nat \<Rightarrow> ert_cmd_state \<Rightarrow> xocl_state \<Rightarrow> fault + xocl_state" where
  "set_cmd_int_state x st s =
     fbind (get_cmd s x) (\<lambda>c. Inr (put_cmd x (c\<lparr>cmd_state := st\<rparr>) s))"

definition set_cmd_state :: "nat \<Rightarrow> ert_cmd_state \<Rightarrow> xocl_state \<Rightarrow> fault + xocl_state" where
  "set_cmd_state x st s =
     fbind (get_cmd s x) (\<lambda>c.
       Inr (put_cmd x (c\<lparr>cmd_state := st,
                          cmd_packet := (cmd_packet c)\<lparr>pkt_state := st\<rparr>\<rparr>) s))"

definition update_cmd_state :: "nat \<Rightarrow> xocl_state \<Rightarrow> fault + (ert_cmd_state \<times> xocl_state)" where
  "update_cmd_state x s =
     fbind (get_cmd s x) (\<lambda>c.
       if cmd_state c \<noteq> ERT_CMD_STATE_RUNNING \<and> client_abort s (cmd_client c)
       then fbind (set_cmd_state x ERT_CMD_STATE_ABORT s) (\<lambda>s'. Inr (ERT_CMD_STATE_ABORT, s'))
       else Inr (cmd_state c, s))"

section \<open>configure and exec_write\<close>

text \<open>
  Modelled from the spec: \<open>struct ert_configure_cmd\<close> is not part of the sources.
  The payload words of a CONFIGURE packet are \<open>slot_size\<close>, \<open>num_cus\<close>, \<open>cu_shift\<close>,
  \<open>cu_base_addr\<close>, the features word, then the CU addresses \<open>data[0..num_cus)\<close>,
  that is the payload words from index 5 on.
\<close>

definition assign_bit :: "nat \<Rightarrow> bool \<Rightarrow> u32 \<Rightarrow> u32" where
  "assign_bit n b w = (if b then set_bit n w else unset_bit n w)"

function copy_cu_addrs :: "nat \<Rightarrow> nat \<Rightarrow> u32 list \<Rightarrow> u32 list \<Rightarrow> fault + u32 list" where
  "copy_cu_addrs i n cfg amap =
     (if i < n then
        fbind (packet_read cfg (5 + i)) (\<lambda>a.
        fbind (array_write amap i a) (\<lambda>amap'.
          copy_cu_addrs (i + 1) n cfg amap'))
      else Inr amap)"
  by pat_completeness auto
termination
  by (relation "measure (\<lambda>(i, n, cfg, amap). n - i)") auto

declare copy_cu_addrs.simps [simp del]

definition configure :: "ert_abi \<Rightarrow> xocl_dev \<Rightarrow> nat \<Rightarrow> xocl_state \<Rightarrow> fault + (int \<times> xocl_state)" where
  "configure K xdev x s =
     fbind (get_cmd s x) (\<lambda>c.
     let p = cmd_packet c; exec0 = exec s in
     if opcode p \<noteq> ucast (ERT_CONFIGURE K) then Inr (1, s\<lparr>xs_error := 1\<rparr>)
     else if configured exec0 then Inr (1, s)
     else
     fbind (packet_read (pkt_data p) 1) (\<lambda>cfg_num_cus.
     if payload_size p \<noteq> 5 + cfg_num_cus then Inr (1, s)
     else
     fbind (packet_read (pkt_data p) 0) (\<lambda>cfg_slot_size.
     if cfg_slot_size = 0 then Inl DivideByZero
     else
     fbind (packet_read (pkt_data p) 2) (\<lambda>cfg_cu_shift.
     fbind (packet_read (pkt_data p) 3) (\<lambda>cfg_cu_base_addr.
     let slots = ERT_CQ_SIZE K div cfg_slot_size;
         exec1 = exec0\<lparr>num_slots := slots,
                        num_cus := cfg_num_cus,
                        cu_shift_offset := cfg_cu_shift,
                        cu_base_addr := cfg_cu_base_addr,
                        num_cu_masks := drop_bit 5 (cfg_num_cus - 1) + 1,
                        num_slot_masks := drop_bit 5 (slots - 1) + 1\<rparr>
     in
     fbind (copy_cu_addrs 0 (unat cfg_num_cus) (pkt_data p) (cu_addr_map exec1)) (\<lambda>amap.
     fbind (if cdma_on xdev
            then fbind (array_write amap (unat cfg_num_cus) 0x250000) (\<lambda>amap'.
                   Inr (exec1\<lparr>cu_addr_map := amap', num_cus := cfg_num_cus + 1\<rparr>,
                        p\<lparr>pkt_data := (pkt_data p)[1 := cfg_num_cus + 1]\<rparr>))
            else Inr (exec1\<lparr>cu_addr_map := amap\<rparr>, p)) (\<lambda>(exec2, p2).
     fbind (packet_read (pkt_data p2) 4) (\<lambda>features.
     let (exec3, p3) =
           (if mb_sched_on xdev \<and> bit features (ert_bit K)
            then (exec2\<lparr>ops := mb_ops,
                         polling_mode := of_bool (bit features (polling_bit K)),
                         cq_interrupt := of_bool (bit features (cq_int_bit K))\<rparr>,
                  p2\<lparr>pkt_data := (pkt_data p2)
                        [4 := assign_bit (cdma_bit K) (cdma_on xdev)
                                (assign_bit (dsa52_bit K) (52 \<le> dsa_version xdev) features)]\<rparr>)
            else (exec2\<lparr>ops := penguin_ops, polling_mode := 1\<rparr>, p2))
     in Inr (0, put_cmd x (c\<lparr>cmd_packet := p3\<rparr>)
                  (s\<lparr>exec := exec3\<lparr>configured := True\<rparr>\<rparr>))))))))))"

function exec_write_from ::
  "nat \<Rightarrow> nat \<Rightarrow> ioaddr \<Rightarrow> u32 list \<Rightarrow> (ioaddr \<times> u32) list \<Rightarrow> fault + (ioaddr \<times> u32) list" where
  "exec_write_from idx bound io_base ws log =
     (if idx < bound then
        fbind (packet_read ws idx) (\<lambda>addr.
        fbind (packet_read ws (idx + 1)) (\<lambda>val.
          exec_write_from (idx + 2) bound io_base ws (log @ [(io_base + ucast addr, val)])))
      else Inr log)"
  by pat_completeness auto
termination
  by (relation "measure (\<lambda>(idx, bound, io_base, ws, log). bound - idx)") auto

declare exec_write_from.simps [simp del]

definition exec_write :: "nat \<Rightarrow> xocl_state \<Rightarrow> fault + (int \<times> xocl_state)" where
  "exec_write x s =
     fbind (get_cmd s x) (\<lambda>c.
     fbind (exec_write_from 0 (unat (payload_size (cmd_packet c) - 1)) (base (exec s))
              (pkt_data (cmd_packet c)) (mmio_writes s)) (\<lambda>log.
       Inr (0, s\<lparr>mmio_writes := log\<rparr>)))"


section \<open>Dispatch back-ends: submit\<close>

text \<open>
  Modelled from the spec: \<open>struct ert_start_kernel_cmd\<close> is not part of the
  sources.  After the header come \<open>1 + extra_cu_masks\<close> CU-mask words and then
  the register map, so \<open>ecmd->data + ecmd->extra_cu_masks + i\<close> is payload word
  \<open>1 + extra_cu_masks + i\<close>.
\<close>

function write_regmap ::
  "nat \<Rightarrow> nat \<Rightarrow> ioaddr \<Rightarrow> ert_packet \<Rightarrow> (ioaddr \<times> u32) list \<Rightarrow> fault + (ioaddr \<times> u32) list" where
  "write_regmap i rsize cu_io p log =
     (if i < rsize then
        fbind (packet_read (pkt_data p) (1 + unat (pkt_extra_cu_masks p) + i)) (\<lambda>v.
          write_regmap (i + 1) rsize cu_io p
            (log @ [(cu_io + ucast (push_bit 2 (of_nat i :: u32)), v)]))
      else Inr log)"
  by pat_completeness auto
termination
  by (relation "measure (\<lambda>(i, rsize, cu_io, p, log). rsize - i)") auto

declare write_regmap.simps [simp del]

definition configure_cu :: "ert_abi \<Rightarrow> nat \<Rightarrow> int \<Rightarrow> xocl_state \<Rightarrow> fault + xocl_state" where
  "configure_cu K x cu_idx s =
     fbind (get_cmd s x) (\<lambda>c.
     fbind (cu_idx_to_addr (exec s) (word_of_int cu_idx)) (\<lambda>cu_addr.
     let rsize = regmap_size K (cmd_packet c);
         cu_io = base (exec s) + ucast cu_addr
     in
     fbind (write_regmap 1 (unat rsize) cu_io (cmd_packet c) (mmio_writes s)) (\<lambda>log.
       Inr (s\<lparr>mmio_writes := log @ [(cu_io, 0x1)]\<rparr>))))"

definition penguin_submit :: "ert_abi \<Rightarrow> nat \<Rightarrow> xocl_state \<Rightarrow> fault + (bool \<times> xocl_state)" where
  "penguin_submit K x s =
     fbind (get_cmd s x) (\<lambda>c.
     let p = cmd_packet c in
     if opcode p = ucast (ERT_CONFIGURE K) \<or> type_of_cmd p = ucast (ERT_KDS_LOCAL K) then
       fbind (acquire_slot_idx (exec s)) (\<lambda>(idx, exec1).
         Inr (True, put_cmd x (c\<lparr>cmd_slot_idx := idx\<rparr>) (s\<lparr>exec := exec1\<rparr>)))
     else if opcode p \<noteq> ucast (ERT_START_CU K) then Inr (False, s)
     else
       fbind (get_free_cu K p (exec s)) (\<lambda>(cu, exec1).
       let c1 = c\<lparr>cmd_cu_idx := cu\<rparr>;
           s1 = put_cmd x c1 (s\<lparr>exec := exec1\<rparr>)
       in
       if cu < 0 then Inr (False, s1)
       else
         fbind (acquire_slot_idx exec1) (\<lambda>(idx, exec2).
         let s2 = put_cmd x (c1\<lparr>cmd_slot_idx := idx\<rparr>) (s1\<lparr>exec := exec2\<rparr>) in
         if idx < 0 then Inr (False, s2)
         else fbind (configure_cu K x cu s2) (\<lambda>s3. Inr (True, s3)))))"

function memcpy_toio ::
  "nat \<Rightarrow> nat \<Rightarrow> ioaddr \<Rightarrow> u32 list \<Rightarrow> (ioaddr \<times> u32) list \<Rightarrow> fault + (ioaddr \<times> u32) list" where
  "memcpy_toio i n dst ws log =
     (if i < n then
        fbind (packet_read ws i) (\<lambda>v.
          memcpy_toio (i + 1) n dst ws (log @ [(dst + 4 * of_nat i, v)]))
      else Inr log)"
  by pat_completeness auto
termination
  by (relation "measure (\<lambda>(i, n, dst, ws, log). n - i)") auto

declare memcpy_toio.simps [simp del]

definition mb_submit :: "ert_abi \<Rightarrow> nat \<Rightarrow> xocl_state \<Rightarrow> fault + (bool \<times> xocl_state)" where
  "mb_submit K x s =
     fbind (get_cmd s x) (\<lambda>c.
     fbind (acquire_slot_idx (exec s)) (\<lambda>(idx, exec1).
     let c1 = c\<lparr>cmd_slot_idx := idx\<rparr>;
         p = cmd_packet c;
         s1 = put_cmd x c1 (s\<lparr>exec := exec1\<rparr>)
     in
     if idx < 0 then Inr (False, s1)
     else if type_of_cmd p = ucast (ERT_KDS_LOCAL K) then Inr (True, s1)
     else
       fbind (slot_size K exec1) (\<lambda>ssize.
       let slot_addr = ERT_CQ_BASE_ADDR K + word_of_int idx * ssize;
           slot_io = base exec1 + ucast slot_addr
       in
       fbind (memcpy_toio 0 (unat (packet_size p - 1)) (slot_io + 4) (pkt_data p)
                (mmio_writes s1)) (\<lambda>log.
       let log1 = log @ [(slot_io, header_word K p)];
           log2 = (if cq_interrupt exec1 \<noteq> 0
                   then log1 @ [(base exec1
                                  + ucast (ERT_CQ_STATUS_REGISTER_ADDR K
                                           + push_bit 2 (slot_mask_idx (word_of_int idx))),
                                 push_bit (unat (slot_idx_in_mask (word_of_int idx))) 1)]
                   else log1)
       in Inr (True, s1\<lparr>mmio_writes := log2\<rparr>)))))"

text \<open>
  \<open>exec->ops->submit\<close>.  Only \<open>mb_ops\<close> and \<open>penguin_ops\<close> are ever stored by
  \<open>mb_scheduler.c\<close>; the third table belongs to the zocl driver.
\<close>

definition submit :: "ert_abi \<Rightarrow> nat \<Rightarrow> xocl_state \<Rightarrow> fault + (bool \<times> xocl_state)" where
  "submit K x s =
     (case ops (exec s) of
        mb_ops \<Rightarrow> mb_submit K x s
      | penguin_ops \<Rightarrow> penguin_submit K x s
      | ps_ert_ops \<Rightarrow> Inl NullPointer)"

section \<open>Queued to running\<close>

definition queued_to_running ::
  "ert_abi \<Rightarrow> xocl_dev \<Rightarrow> nat \<Rightarrow> xocl_state \<Rightarrow> fault + (bool \<times> xocl_state)" where
  "queued_to_running K xdev x s =
     fbind (get_cmd s x) (\<lambda>c.
     if cmd_wait_count c \<noteq> 0 then Inr (False, s)
     else
     fbind (if opcode (cmd_packet c) = ucast (ERT_CONFIGURE K)
            then configure K xdev x s else Inr (0, s)) (\<lambda>(rc, s1).
     if rc \<noteq> 0 then
       fbind (set_cmd_state x ERT_CMD_STATE_ERROR s1) (\<lambda>s2. Inr (False, s2))
     else
     fbind (get_cmd s1 x) (\<lambda>c1.
     fbind (if opcode (cmd_packet c1) = ucast (ERT_WRITE K)
            then exec_write x s1 else Inr (0, s1)) (\<lambda>(rc', s2).
     if rc' \<noteq> 0 then
       fbind (set_cmd_state x ERT_CMD_STATE_ERROR s2) (\<lambda>s3. Inr (False, s3))
     else
     fbind (submit K x s2) (\<lambda>(ok, s3).
     if ok then
       fbind (set_cmd_int_state x ERT_CMD_STATE_RUNNING s3) (\<lambda>s4.
       fbind (get_cmd s4 x) (\<lambda>c4.
       let s5 = (if polling_mode (exec s4) \<noteq> 0 then s4\<lparr>xs_poll := xs_poll s4 + 1\<rparr> else s4) in
       if cmd_slot_idx c4 < 0 then Inl IndexOutOfBounds
       else
       fbind (array_write (submitted_cmds (exec s5)) (nat (cmd_slot_idx c4)) (Some x)) (\<lambda>sub.
         Inr (True, s5\<lparr>exec := (exec s5)\<lparr>submitted_cmds := sub\<rparr>\<rparr>))))
     else Inr (False, s3))))))"


section \<open>Completion, chaining and host notification\<close>

definition MAX_DEPS :: u32 where "MAX_DEPS = 8"

definition notify_host :: "xocl_state \<Rightarrow> xocl_state" where
  "notify_host s =
     s\<lparr>client_trigger := fold (\<lambda>entry t. t(entry := t entry + 1)) (ctx_list s) (client_trigger s),
       poll_wakeups := Suc (poll_wakeups s)\<rparr>"

fun trigger_chain_from ::
  "ert_abi \<Rightarrow> xocl_dev \<Rightarrow> nat \<Rightarrow> nat \<Rightarrow> xocl_state \<Rightarrow> fault + xocl_state" where
  "trigger_chain_from K xdev x 0 s = Inr s"
| "trigger_chain_from K xdev x (Suc n) s =
     fbind (get_cmd s x) (\<lambda>c.
     let s1 = put_cmd x (c\<lparr>cmd_chain_count := of_nat n\<rparr>) s in
     fbind (array_read (cmd_chain c) n) (\<lambda>entry.
     case entry of
       None \<Rightarrow> Inl NullPointer
     | Some trigger \<Rightarrow>
         fbind (get_cmd s1 trigger) (\<lambda>tc.
         let s2 = (if cmd_wait_count tc = 0 then s1\<lparr>xs_error := 1\<rparr> else s1);
             tc' = tc\<lparr>cmd_wait_count := cmd_wait_count tc - 1\<rparr>;
             s3 = put_cmd trigger tc' s2
         in
         fbind (if cmd_wait_count tc' = 0
                then fbind (queued_to_running K xdev trigger s3) (\<lambda>(started, s4). Inr s4)
                else Inr s3) (\<lambda>s5.
           trigger_chain_from K xdev x n s5))))"

definition trigger_chain :: "ert_abi \<Rightarrow> xocl_dev \<Rightarrow> nat \<Rightarrow> xocl_state \<Rightarrow> fault + xocl_state" where
  "trigger_chain K xdev x s =
     fbind (get_cmd s x) (\<lambda>c. trigger_chain_from K xdev x (unat (cmd_chain_count c)) s)"

definition mark_cmd_complete :: "ert_abi \<Rightarrow> xocl_dev \<Rightarrow> nat \<Rightarrow> xocl_state \<Rightarrow> fault + xocl_state" where
  "mark_cmd_complete K xdev x s =
     fbind (get_cmd s x) (\<lambda>c.
     fbind (if cmd_slot_idx c < 0 then Inl IndexOutOfBounds
            else array_write (submitted_cmds (exec s)) (nat (cmd_slot_idx c)) None) (\<lambda>sub.
     let s1 = s\<lparr>exec := (exec s)\<lparr>submitted_cmds := sub\<rparr>\<rparr> in
     fbind (set_cmd_state x ERT_CMD_STATE_COMPLETED s1) (\<lambda>s2.
     let s3 = (if polling_mode (exec s2) \<noteq> 0 then s2\<lparr>xs_poll := xs_poll s2 - 1\<rparr> else s2) in
     fbind (release_slot_idx (exec s3) (word_of_int (cmd_slot_idx c))) (\<lambda>exec4.
     let s4 = notify_host (s3\<lparr>exec := exec4\<rparr>);
         s5 = s4\<lparr>bo_active := (bo_active s4)(cmd_bo c := None)\<rparr>
     in trigger_chain K xdev x s5))))"

fun mark_mask_complete_bits ::
  "ert_abi \<Rightarrow> xocl_dev \<Rightarrow> u32 \<Rightarrow> u32 \<Rightarrow> nat list \<Rightarrow> xocl_state \<Rightarrow> fault + xocl_state" where
  "mark_mask_complete_bits K xdev msk mask_idx [] s = Inr s"
| "mark_mask_complete_bits K xdev msk mask_idx (bit_idx # rest) s =
     fbind (if bit msk bit_idx then
              fbind (array_read (submitted_cmds (exec s))
                       (unat (push_bit 5 mask_idx + of_nat bit_idx))) (\<lambda>entry.
              case entry of
                None \<Rightarrow> Inl NullPointer
              | Some y \<Rightarrow> mark_cmd_complete K xdev y s)
            else Inr s) (\<lambda>s'.
       mark_mask_complete_bits K xdev msk mask_idx rest s')"

definition mark_mask_complete ::
  "ert_abi \<Rightarrow> xocl_dev \<Rightarrow> u32 \<Rightarrow> u32 \<Rightarrow> xocl_state \<Rightarrow> fault + xocl_state" where
  "mark_mask_complete K xdev msk mask_idx s =
     (if msk = 0 then Inr s
      else mark_mask_complete_bits K xdev msk mask_idx [0..<32] s)"

section \<open>Dispatch back-ends: query\<close>

definition get_cu_idx :: "u32 \<Rightarrow> xocl_state \<Rightarrow> fault + (u32 \<times> xocl_state)" where
  "get_cu_idx cmd_idx s =
     fbind (array_read (submitted_cmds (exec s)) (unat cmd_idx)) (\<lambda>entry.
     case entry of
       None \<Rightarrow> Inr (- 1, s\<lparr>xs_error := 1\<rparr>)
     | Some y \<Rightarrow> fbind (get_cmd s y) (\<lambda>c. Inr (word_of_int (cmd_cu_idx c), s)))"

definition cu_done :: "u32 \<Rightarrow> xocl_state \<Rightarrow> fault + (bool \<times> xocl_state)" where
  "cu_done cu_idx s =
     fbind (cu_idx_to_addr (exec s) cu_idx) (\<lambda>cu_addr.
     if mmio_regs s (base (exec s) + ucast cu_addr) AND 2 \<noteq> 0 then
       (let mask_idx = cu_mask_idx cu_idx; pos = cu_idx_in_mask cu_idx in
        fbind (array_read (cu_status (exec s)) (unat mask_idx)) (\<lambda>busy.
          Inr (True, s\<lparr>exec := (exec s)\<lparr>cu_status :=
                 (cu_status (exec s))[unat mask_idx := busy XOR push_bit (unat pos) 1]\<rparr>\<rparr>)))
     else Inr (False, s))"

definition penguin_query :: "ert_abi \<Rightarrow> xocl_dev \<Rightarrow> nat \<Rightarrow> xocl_state \<Rightarrow> fault + xocl_state" where
  "penguin_query K xdev x s =
     fbind (get_cmd s x) (\<lambda>c.
     let opc = opcode (cmd_packet c) in
     fbind (if type_of_cmd (cmd_packet c) = ucast (ERT_KDS_LOCAL K)
               \<or> opc = ucast (ERT_CONFIGURE K) then Inr (True, s)
            else if opc = ucast (ERT_START_CU K) then
              fbind (get_cu_idx (word_of_int (cmd_slot_idx c)) s) (\<lambda>(cu_idx, s1).
                cu_done cu_idx s1)
            else Inr (False, s)) (\<lambda>(done, s2).
       if done then mark_cmd_complete K xdev x s2 else Inr s2))"

text \<open>
  \<open>atomic_xchg(&exec->sr_n, 0)\<close> inside the short-circuit condition of
  \<open>mb_query\<close>: the flag of the command's mask is cleared and its old value
  decides.
\<close>

definition xchg_sr :: "u32 \<Rightarrow> exec_core \<Rightarrow> bool \<times> exec_core" where
  "xchg_sr cmd_mask_idx e =
     (if cmd_mask_idx = 0 then (sr0 e \<noteq> 0, e\<lparr>sr0 := 0\<rparr>)
      else if cmd_mask_idx = 1 then (sr1 e \<noteq> 0, e\<lparr>sr1 := 0\<rparr>)
      else if cmd_mask_idx = 2 then (sr2 e \<noteq> 0, e\<lparr>sr2 := 0\<rparr>)
      else if cmd_mask_idx = 3 then (sr3 e \<noteq> 0, e\<lparr>sr3 := 0\<rparr>)
      else (False, e))"

definition mb_query :: "ert_abi \<Rightarrow> xocl_dev \<Rightarrow> nat \<Rightarrow> xocl_state \<Rightarrow> fault + xocl_state" where
  "mb_query K xdev x s =
     fbind (get_cmd s x) (\<lambda>c.
     let cmd_mask_idx = slot_mask_idx (word_of_int (cmd_slot_idx c)) in
     if type_of_cmd (cmd_packet c) = ucast (ERT_KDS_LOCAL K) then mark_cmd_complete K xdev x s
     else
       (let (pending, s1) =
              (if polling_mode (exec s) \<noteq> 0 then (True, s)
               else (let (fired, e) = xchg_sr cmd_mask_idx (exec s) in (fired, s\<lparr>exec := e\<rparr>)))
        in
        if pending then
          (let csr_addr = ERT_STATUS_REGISTER_ADDR K + push_bit 2 cmd_mask_idx;
               msk = mmio_regs s1 (base (exec s1) + ucast csr_addr)
           in if msk \<noteq> 0 then mark_mask_complete K xdev msk cmd_mask_idx s1 else Inr s1)
        else Inr s1))"

definition running_to_complete :: "ert_abi \<Rightarrow> xocl_dev \<Rightarrow> nat \<Rightarrow> xocl_state \<Rightarrow> fault + xocl_state" where
  "running_to_complete K xdev x s =
     (case ops (exec s) of
        mb_ops \<Rightarrow> mb_query K xdev x s
      | penguin_ops \<Rightarrow> penguin_query K xdev x s
      | ps_ert_ops \<Rightarrow> Inl NullPointer)"


section \<open>Recycling commands\<close>

text \<open>
  \<open>list_move_tail(&xcmd->list, &free_cmds)\<close>: the command leaves the list it is
  on and becomes the last entry of the freelist.
\<close>

definition recycle_cmd :: "nat \<Rightarrow> xocl_state \<Rightarrow> xocl_state" where
  "recycle_cmd x s =
     s\<lparr>pending_cmds := removeAll x (pending_cmds s),
       command_queue := removeAll x (command_queue s),
       free_cmds := removeAll x (free_cmds s) @ [x]\<rparr>"

definition cleanup_exec :: "nat \<Rightarrow> xocl_state \<Rightarrow> fault + xocl_state" where
  "cleanup_exec x s =
     fbind (get_cmd s x) (\<lambda>c.
     let s1 = s\<lparr>bo_unrefs := bo_unrefs s @ [cmd_bo c]\<rparr>;
         s2 = recycle_cmd x s1
     in Inr (s2\<lparr>xdev_outstanding := xdev_outstanding s2 - 1,
                client_outstanding := (client_outstanding s2)
                  (cmd_client c := client_outstanding s2 (cmd_client c) - 1)\<rparr>))"

definition complete_to_free :: "nat \<Rightarrow> xocl_state \<Rightarrow> fault + xocl_state" where
  "complete_to_free x s = cleanup_exec x s"

definition error_to_free :: "nat \<Rightarrow> xocl_state \<Rightarrow> fault + xocl_state" where
  "error_to_free x s = complete_to_free x (notify_host s)"

definition abort_to_free :: "nat \<Rightarrow> xocl_state \<Rightarrow> fault + xocl_state" where
  "abort_to_free x s = complete_to_free x s"

section \<open>The scheduler thread\<close>

definition state_is :: "nat \<Rightarrow> ert_cmd_state \<Rightarrow> xocl_state \<Rightarrow> fault + bool" where
  "state_is x st s = fbind (get_cmd s x) (\<lambda>c. Inr (cmd_state c = st))"

text \<open>The body of the loop of \<open>scheduler_iterate_cmds\<close> for the command \<open>x\<close>.\<close>

definition scheduler_iterate_cmd ::
  "ert_abi \<Rightarrow> xocl_dev \<Rightarrow> nat \<Rightarrow> xocl_state \<Rightarrow> fault + xocl_state" where
  "scheduler_iterate_cmd K xdev x s =
     fbind (update_cmd_state x s) (\<lambda>(st, s0).
     fbind (state_is x ERT_CMD_STATE_QUEUED s0) (\<lambda>queued.
     fbind (if queued
            then fbind (queued_to_running K xdev x s0) (\<lambda>(started, s'). Inr s')
            else Inr s0) (\<lambda>s1.
     fbind (state_is x ERT_CMD_STATE_RUNNING s1) (\<lambda>running.
     fbind (if running then running_to_complete K xdev x s1 else Inr s1) (\<lambda>s2.
     fbind (state_is x ERT_CMD_STATE_COMPLETED s2) (\<lambda>completed.
     fbind (if completed then complete_to_free x s2 else Inr s2) (\<lambda>s3.
     fbind (state_is x ERT_CMD_STATE_ERROR s3) (\<lambda>failed.
     fbind (if failed then error_to_free x s3 else Inr s3) (\<lambda>s4.
     fbind (state_is x ERT_CMD_STATE_ABORT s4) (\<lambda>aborted.
       if aborted then abort_to_free x s4 else Inr s4))))))))))"

fun scheduler_iterate_list ::
  "ert_abi \<Rightarrow> xocl_dev \<Rightarrow> nat list \<Rightarrow> xocl_state \<Rightarrow> fault + xocl_state" where
  "scheduler_iterate_list K xdev [] s = Inr s"
| "scheduler_iterate_list K xdev (x # rest) s =
     fbind (scheduler_iterate_cmd K xdev x s) (scheduler_iterate_list K xdev rest)"

definition scheduler_iterate_cmds :: "ert_abi \<Rightarrow> xocl_dev \<Rightarrow> xocl_state \<Rightarrow> fault + xocl_state" where
  "scheduler_iterate_cmds K xdev s = scheduler_iterate_list K xdev (command_queue s) s"

section \<open>Submission and admission\<close>

definition get_free_xocl_cmd :: "xocl_state \<Rightarrow> nat \<times> xocl_cmd \<times> xocl_state" where
  "get_free_xocl_cmd s =
     (let blank = \<lparr>cmd_bo = 0, cmd_client = 0, cmd_state = ERT_CMD_STATE_NEW, cmd_id = 0,
                    cmd_cu_idx = 0, cmd_slot_idx = 0, cmd_chain_count = 0, cmd_wait_count = 0,
                    cmd_chain = replicate 8 None,
                    cmd_packet = \<lparr>pkt_state = ERT_CMD_STATE_NEW, pkt_extra_cu_masks = 0,
                                  pkt_count = 0, pkt_opcode = 0, pkt_type = 0, pkt_data = []\<rparr>\<rparr>
      in case free_cmds s of
           x # rest \<Rightarrow>
             (x, (case cmds s x of None \<Rightarrow> blank | Some c \<Rightarrow> c)\<lparr>cmd_id := id_count s\<rparr>,
              s\<lparr>free_cmds := rest, id_count := Suc (id_count s)\<rparr>)
         | [] \<Rightarrow>
             (heap_next s, blank\<lparr>cmd_id := id_count s\<rparr>,
              s\<lparr>heap_next := Suc (heap_next s), id_count := Suc (id_count s)\<rparr>))"

text \<open>
  \<open>add_cmd\<close>: \<open>pkt\<close> is the packet mapped by the buffer object \<open>bo\<close>, \<open>deps\<close> the
  buffer objects the command depends on (\<open>numdeps\<close> is their number).
\<close>

definition add_cmd :: "nat \<Rightarrow> nat \<Rightarrow> ert_packet \<Rightarrow> nat list \<Rightarrow> xocl_state \<Rightarrow> fault + xocl_state" where
  "add_cmd client bo pkt deps s =
     (let (x, c, s1) = get_free_xocl_cmd s in
      if length (cmd_chain c) < length deps then Inl IndexOutOfBounds
      else
        (let c1 = c\<lparr>cmd_bo := bo, cmd_cu_idx := - 1, cmd_slot_idx := - 1,
                     cmd_packet := pkt\<lparr>pkt_state := ERT_CMD_STATE_NEW\<rparr>,
                     cmd_client := client,
                     cmd_chain := map Some deps @ drop (length deps) (cmd_chain c),
                     cmd_wait_count := of_nat (length deps),
                     cmd_chain_count := 0,
                     cmd_state := ERT_CMD_STATE_NEW\<rparr>;
             s2 = put_cmd x c1 s1
         in Inr (s2\<lparr>client_outstanding := (client_outstanding s2)
                       (client := client_outstanding s2 client + 1),
                     pending_cmds := pending_cmds s2 @ [x],
                     num_pending := num_pending s2 + 1,
                     xdev_outstanding := xdev_outstanding s2 + 1\<rparr>)))"

function chain_dependencies_from ::
  "nat \<Rightarrow> nat \<Rightarrow> nat \<Rightarrow> xocl_state \<Rightarrow> fault + (int \<times> xocl_state)" where
  "chain_dependencies_from didx dcount x s =
     (if didx < dcount then
        fbind (get_cmd s x) (\<lambda>c.
        fbind (array_read (cmd_chain c) didx) (\<lambda>entry.
        case entry of
          None \<Rightarrow> Inl NullPointer
        | Some dbo \<Rightarrow>
            (let chain_to = bo_active s dbo;
                 c1 = c\<lparr>cmd_chain := (cmd_chain c)[didx := None]\<rparr>;
                 s1 = put_cmd x c1 (s\<lparr>bo_unrefs := bo_unrefs s @ [dbo]\<rparr>)
             in case chain_to of
                  None \<Rightarrow>
                    chain_dependencies_from (didx + 1) dcount x
                      (put_cmd x (c1\<lparr>cmd_wait_count := cmd_wait_count c1 - 1\<rparr>) s1)
                | Some y \<Rightarrow>
                    fbind (get_cmd s1 y) (\<lambda>yc.
                    if MAX_DEPS \<le> cmd_chain_count yc then Inr (1, s1)
                    else
                      fbind (array_write (cmd_chain yc) (unat (cmd_chain_count yc)) (Some x))
                        (\<lambda>ch.
                        chain_dependencies_from (didx + 1) dcount x
                          (put_cmd y (yc\<lparr>cmd_chain := ch,
                                          cmd_chain_count := cmd_chain_count yc + 1\<rparr>) s1))))))
      else Inr (0, s))"
  by pat_completeness auto
termination
  by (relation "measure (\<lambda>(didx, dcount, x, s). dcount - didx)") auto

declare chain_dependencies_from.simps [simp del]

definition chain_dependencies :: "nat \<Rightarrow> xocl_state \<Rightarrow> fault + (int \<times> xocl_state)" where
  "chain_dependencies x s =
     fbind (get_cmd s x) (\<lambda>c. chain_dependencies_from 0 (unat (cmd_wait_count c)) x s)"

text \<open>The body of the loop of \<open>scheduler_queue_cmds\<close> for the pending command \<open>x\<close>.\<close>

definition scheduler_queue_cmd :: "nat \<Rightarrow> xocl_state \<Rightarrow> fault + xocl_state" where
  "scheduler_queue_cmd x s =
     (let s1 = s\<lparr>pending_cmds := removeAll x (pending_cmds s),
                  command_queue := command_queue s @ [x]\<rparr>
      in
      fbind (get_cmd s1 x) (\<lambda>c.
      fbind (if cmd_wait_count c \<noteq> 0
             then fbind (chain_dependencies x s1) (\<lambda>(rc, s2).
                    if rc \<noteq> 0 then set_cmd_state x ERT_CMD_STATE_ERROR s2
                    else set_cmd_int_state x ERT_CMD_STATE_QUEUED s2)
             else set_cmd_int_state x ERT_CMD_STATE_QUEUED s1) (\<lambda>s3.
        Inr (s3\<lparr>bo_active := (bo_active s3)(cmd_bo c := Some x),
                 num_pending := num_pending s3 - 1\<rparr>))))"

fun scheduler_queue_list :: "nat list \<Rightarrow> xocl_state \<Rightarrow> fault + xocl_state" where
  "scheduler_queue_list [] s = Inr s"
| "scheduler_queue_list (x # rest) s =
     fbind (scheduler_queue_cmd x s) (scheduler_queue_list rest)"

definition scheduler_queue_cmds :: "xocl_state \<Rightarrow> fault + xocl_state" where
  "scheduler_queue_cmds s = scheduler_queue_list (pending_cmds s) s"

text \<open>
  One pass of \<open>scheduler_loop\<close> once the thread is awake and not stopped: admit the
  pending commands, then advance every command of the queue.
\<close>

definition scheduler_loop :: "ert_abi \<Rightarrow> xocl_dev \<Rightarrow> xocl_state \<Rightarrow> fault + xocl_state" where
  "scheduler_loop K xdev s = fbind (scheduler_queue_cmds s) (scheduler_iterate_cmds K xdev)"

text \<open>The scheduler state after \<open>mb_scheduler_probe\<close>, before any client exists.\<close>

definition probe_state :: "ioaddr \<Rightarrow> xocl_state" where
  "probe_state base_addr =
     \<lparr>exec = mb_scheduler_probe base_addr, cmds = (\<lambda>x. None), xs_poll = 0, xs_error = 0,
      pending_cmds = [], command_queue = [], free_cmds = [],
      bo_active = (\<lambda>b. None), bo_unrefs = [], ctx_list = [],
      client_trigger = (\<lambda>cl. 0), client_abort = (\<lambda>cl. False),
      client_outstanding = (\<lambda>cl. 0), xdev_outstanding = 0, poll_wakeups = 0,
      mmio_writes = [], mmio_regs = (\<lambda>a. 0), num_pending = 0, heap_next = 0, id_count = 0\<rparr>"

text \<open>
  \<open>create_client\<close>: the client joins the device's context list with its counters
  cleared; the first client of a device resets the core.
\<close>

fun cleanup_exec_list :: "nat list \<Rightarrow> xocl_state \<Rightarrow> fault + xocl_state" where
  "cleanup_exec_list [] s = Inr s"
| "cleanup_exec_list (x # rest) s = fbind (cleanup_exec x s) (cleanup_exec_list rest)"

definition reset_exec :: "xocl_state \<Rightarrow> fault + xocl_state" where
  "reset_exec s =
     fbind (cleanup_exec_list (pending_cmds s) s) (\<lambda>s1.
     fbind (cleanup_exec_list (command_queue s1) s1) (\<lambda>s2.
       Inr (s2\<lparr>exec := reset_exec_core (exec s2)\<rparr>)))"

definition create_client :: "nat \<Rightarrow> xocl_state \<Rightarrow> fault + xocl_state" where
  "create_client client s =
     (let s1 = s\<lparr>client_trigger := (client_trigger s)(client := 0),
                  client_abort := (client_abort s)(client := False),
                  client_outstanding := (client_outstanding s)(client := 0),
                  ctx_list := ctx_list s @ [client]\<rparr>
      in if length (ctx_list s1) = 1 then reset_exec s1 else Inr s1)"


section \<open>The zocl driver: configure, submit and queued to running\<close>

text \<open>
  \<open>struct sched_cmd\<close> and the state of the zocl scheduler thread.  \<open>z_ert\<close> tells
  whether the device has the ERT hardware block (\<open>zdev->ert\<close> is not NULL);
  \<open>z_regs_writes\<close> are the stores into the CU register space \<open>zdev->regs\<close> and
  \<open>z_ert_hw_writes\<close> the writes into the ERT hardware block, both by offset.
\<close>

record sched_cmd =
  z_state :: ert_cmd_state
  z_cu_idx :: int
  z_slot_idx :: int
  z_cq_slot_idx :: u32
  z_packet :: ert_packet

record zocl_state =
  z_exec :: exec_core
  z_cmds :: "nat \<Rightarrow> sched_cmd option"
  z_ert :: bool
  z_poll :: u32
  z_error :: u32
  z_pending_cmds :: "nat list"
  z_command_queue :: "nat list"
  z_regs_writes :: "(ioaddr \<times> u32) list"
  z_ert_hw_writes :: "(u32 \<times> u32) list"

definition z_get_cmd :: "zocl_state \<Rightarrow> nat \<Rightarrow> fault + sched_cmd" where
  "z_get_cmd s x = (case z_cmds s x of None \<Rightarrow> Inl NullPointer | Some c \<Rightarrow> Inr c)"

definition z_put_cmd :: "nat \<Rightarrow> sched_cmd \<Rightarrow> zocl_state \<Rightarrow> zocl_state" where
  "z_put_cmd x c s = s\<lparr>z_cmds := (z_cmds s)(x \<mapsto> c)\<rparr>"

definition zocl_cu_masks :: "sched_abi \<Rightarrow> ert_packet \<Rightarrow> u32" where
  "zocl_cu_masks Z p =
     (if opcode p \<noteq> ucast (OP_START_KERNEL Z) then 0
      else 1 + ucast (pkt_extra_cu_masks p))"

definition zocl_regmap_size :: "sched_abi \<Rightarrow> ert_packet \<Rightarrow> u32" where
  "zocl_regmap_size Z p = payload_size p - zocl_cu_masks Z p"

definition zocl_slot_size :: "sched_abi \<Rightarrow> exec_core \<Rightarrow> fault + u32" where
  "zocl_slot_size Z e =
     (if num_slots e = 0 then Inl DivideByZero else Inr (CQ_SIZE Z div num_slots e))"

definition cu_idx_to_offset :: "exec_core \<Rightarrow> u32 \<Rightarrow> u32" where
  "cu_idx_to_offset e cu_idx = push_bit (unat (cu_shift_offset e)) cu_idx"

definition setup_ert_hw :: "sched_abi \<Rightarrow> zocl_state \<Rightarrow> fault + zocl_state" where
  "setup_ert_hw Z s =
     (let e = z_exec s in
      fbind (zocl_slot_size Z e) (\<lambda>ssize.
        Inr (s\<lparr>z_ert_hw_writes := z_ert_hw_writes s @
               [(ERT_CQ_SLOT_SIZE_REG Z, ssize div 4),
                (ERT_CU_OFFSET_REG Z, cu_shift_offset e),
                (ERT_CQ_NUM_OF_SLOTS_REG Z, num_slots e),
                (ERT_CU_BASE_ADDR_REG Z, 0x81800000 div 4),
                (ERT_CQ_BASE_ADDR_REG Z, 0x80190000 div 4),
                (ERT_NUM_OF_CU_REG Z, num_cus e),
                (ERT_CU_DMA_ENABLE Z, cu_dma e),
                (ERT_HOST_INT_ENABLE Z, if polling_mode e = 0 then 0x1 else 0x0)]\<rparr>)))"

definition zocl_configure :: "sched_abi \<Rightarrow> nat \<Rightarrow> zocl_state \<Rightarrow> fault + (int \<times> zocl_state)" where
  "zocl_configure Z x s =
     fbind (z_get_cmd s x) (\<lambda>c.
     let p = z_packet c; exec0 = z_exec s in
     if opcode p \<noteq> ucast (OP_CONFIGURE Z) then Inr (1, s\<lparr>z_error := 1\<rparr>)
     else if z_pending_cmds s \<noteq> [] then Inr (1, s)
     else if length (z_command_queue s) \<noteq> 1 then Inr (1, s)
     else if configured exec0 then Inr (1, s)
     else
     fbind (packet_read (pkt_data p) 0) (\<lambda>cfg_slot_size.
     if cfg_slot_size = 0 then Inl DivideByZero
     else
     fbind (packet_read (pkt_data p) 1) (\<lambda>cfg_num_cus.
     fbind (packet_read (pkt_data p) 2) (\<lambda>cfg_cu_shift.
     fbind (packet_read (pkt_data p) 3) (\<lambda>cfg_cu_base_addr.
     fbind (packet_read (pkt_data p) 4) (\<lambda>features.
     let exec1 = exec0\<lparr>num_slots := CQ_SIZE Z div cfg_slot_size,
                        num_cus := cfg_num_cus,
                        cu_shift_offset := cfg_cu_shift,
                        cu_base_addr := cfg_cu_base_addr,
                        num_cu_masks := drop_bit 5 (cfg_num_cus - 1) + 1\<rparr>
     in
     if \<not> z_ert s then
       (if bit features (z_ert_bit Z) then Inr (0, s\<lparr>z_exec := exec1\<rparr>)
        else Inr (0, s\<lparr>z_exec := exec1\<lparr>ops := penguin_ops, polling_mode := 1,
                                          configured := True\<rparr>\<rparr>))
     else
       fbind (setup_ert_hw Z
                (s\<lparr>z_exec := exec1\<lparr>ops := ps_ert_ops,
                     polling_mode := of_bool (bit features (z_polling_bit Z)),
                     cq_interrupt := of_bool (bit features (z_cq_int_bit Z)),
                     cu_dma := of_bool (bit features (z_cu_dma_bit Z)),
                     cu_isr := of_bool (bit features (z_cu_isr_bit Z))\<rparr>\<rparr>)) (\<lambda>s1.
         Inr (0, s1\<lparr>z_exec := (z_exec s1)\<lparr>configured := True\<rparr>\<rparr>))))))))"

text \<open>
  \<open>configure_cu\<close> and \<open>ert_configure_cu\<close> of \<open>sched_exec.c\<close> have the same body:
  plain stores through \<open>virt_addr = zdev->regs + cu_idx_to_offset(cu_idx)\<close>, a
  pointer to 32-bit words, so \<open>virt_addr[i]\<close> is at byte offset \<open>4 * i\<close>.
\<close>

definition zocl_configure_cu :: "sched_abi \<Rightarrow> nat \<Rightarrow> int \<Rightarrow> zocl_state \<Rightarrow> fault + zocl_state" where
  "zocl_configure_cu Z x cu_idx s =
     fbind (z_get_cmd s x) (\<lambda>c.
     let rsize = zocl_regmap_size Z (z_packet c);
         virt_addr = base (z_exec s) + ucast (cu_idx_to_offset (z_exec s) (word_of_int cu_idx))
     in
     fbind (write_regmap 1 (unat rsize) virt_addr (z_packet c) (z_regs_writes s)) (\<lambda>log.
       Inr (s\<lparr>z_regs_writes := log @ [(virt_addr, 0x1)]\<rparr>)))"

definition zocl_penguin_submit :: "sched_abi \<Rightarrow> nat \<Rightarrow> zocl_state \<Rightarrow> fault + (bool \<times> zocl_state)" where
  "zocl_penguin_submit Z x s =
     fbind (z_get_cmd s x) (\<lambda>c.
     let p = z_packet c in
     if opcode p = ucast (OP_CONFIGURE Z) then
       fbind (acquire_slot_idx (z_exec s)) (\<lambda>(idx, exec1).
         Inr (True, z_put_cmd x (c\<lparr>z_slot_idx := idx\<rparr>) (s\<lparr>z_exec := exec1\<rparr>)))
     else if opcode p \<noteq> ucast (OP_START_CU Z) then Inr (False, s)
     else
       fbind (zocl_get_free_cu p (z_exec s)) (\<lambda>(cu, exec1).
       let c1 = c\<lparr>z_cu_idx := cu\<rparr>;
           s1 = z_put_cmd x c1 (s\<lparr>z_exec := exec1\<rparr>)
       in
       if cu < 0 then Inr (False, s1)
       else
         fbind (acquire_slot_idx exec1) (\<lambda>(idx, exec2).
         let s2 = z_put_cmd x (c1\<lparr>z_slot_idx := idx\<rparr>) (s1\<lparr>z_exec := exec2\<rparr>) in
         if idx < 0 then Inr (False, s2)
         else fbind (zocl_configure_cu Z x cu s2) (\<lambda>s3. Inr (True, s3)))))"

text \<open>
  \<open>ps_ert_submit\<close> has the text of \<open>penguin_submit\<close> with \<open>ert_configure_cu\<close> in
  the place of \<open>configure_cu\<close>.
\<close>

definition ps_ert_submit :: "sched_abi \<Rightarrow> nat \<Rightarrow> zocl_state \<Rightarrow> fault + (bool \<times> zocl_state)" where
  "ps_ert_submit Z x s = zocl_penguin_submit Z x s"

definition zocl_submit :: "sched_abi \<Rightarrow> nat \<Rightarrow> zocl_state \<Rightarrow> fault + (bool \<times> zocl_state)" where
  "zocl_submit Z x s =
     (case ops (z_exec s) of
        penguin_ops \<Rightarrow> zocl_penguin_submit Z x s
      | ps_ert_ops \<Rightarrow> ps_ert_submit Z x s
      | mb_ops \<Rightarrow> Inl NullPointer)"

definition zocl_queued_to_running :: "sched_abi \<Rightarrow> nat \<Rightarrow> zocl_state \<Rightarrow> fault + (bool \<times> zocl_state)" where
  "zocl_queued_to_running Z x s =
     fbind (z_get_cmd s x) (\<lambda>c.
     fbind (if opcode (z_packet c) = ucast (OP_CONFIGURE Z)
            then zocl_configure Z x s else Inr (0, s)) (\<lambda>(rc, s1).
     fbind (zocl_submit Z x s1) (\<lambda>(ok, s2).
     if ok then
       fbind (z_get_cmd s2 x) (\<lambda>c2.
       let s3 = z_put_cmd x (c2\<lparr>z_state := ERT_CMD_STATE_RUNNING\<rparr>) s2;
           s4 = (if z_ert s3 \<or> polling_mode (z_exec s3) \<noteq> 0
                 then s3\<lparr>z_poll := z_poll s3 + 1\<rparr> else s3)
       in
       if z_slot_idx c2 < 0 then Inl IndexOutOfBounds
       else
       fbind (array_write (submitted_cmds (z_exec s4)) (nat (z_slot_idx c2)) (Some x)) (\<lambda>sub.
         Inr (True, s4\<lparr>z_exec := (z_exec s4)\<lparr>submitted_cmds := sub\<rparr>\<rparr>)))
     else Inr (False, s2))))"

text \<open>The core as \<open>sched_init_exec\<close> of the zocl driver leaves it.\<close>

definition sched_init_exec :: "ioaddr \<Rightarrow> exec_core" where
  "sched_init_exec regs =
     \<lparr>base = regs, submitted_cmds = replicate MAX_SLOTS None,
      num_slots = 16, num_cus = 0, cu_shift_offset = 0, cu_base_addr = 0,
      polling_mode = 1, cq_interrupt = 0, configured = False,
      cu_addr_map = [],
      slot_status = replicate MAX_U32_SLOT_MASKS 0, num_slot_masks = 1,
      cu_status = replicate MAX_U32_CU_MASKS 0, num_cu_masks = 0,
      sr0 = 0, sr1 = 0, sr2 = 0, sr3 = 0,
      cu_dma = 0, cu_isr = 0, ops = penguin_ops\<rparr>"


section \<open>An instance of the parameters\<close>

text \<open>
  Concrete values of the header parameters, used to run the model on concrete
  inputs.  \<open>START_CU\<close> and \<open>START_KERNEL\<close> share one opcode value: both drivers read
  the CU masks and the register map of a \<open>START_CU\<close> command through the
  \<open>START_KERNEL\<close> view of the packet.  The command queue has 128k bytes, as in the
  first scenario of the specification.
\<close>

definition state_code :: "ert_cmd_state \<Rightarrow> u32" where
  "state_code st =
     (case st of
        ERT_CMD_STATE_NEW \<Rightarrow> 1
      | ERT_CMD_STATE_QUEUED \<Rightarrow> 2
      | ERT_CMD_STATE_RUNNING \<Rightarrow> 3
      | ERT_CMD_STATE_COMPLETED \<Rightarrow> 4
      | ERT_CMD_STATE_ERROR \<Rightarrow> 5
      | ERT_CMD_STATE_ABORT \<Rightarrow> 6)"

definition pack_header :: "ert_packet \<Rightarrow> u32" where
  "pack_header p =
     state_code (pkt_state p)
       OR push_bit 10 (ucast (pkt_extra_cu_masks p))
       OR push_bit 12 (ucast (pkt_count p))
       OR push_bit 23 (ucast (pkt_opcode p))
       OR push_bit 28 (ucast (pkt_type p))"

definition sample_abi :: ert_abi where
  "sample_abi =
     \<lparr>ERT_START_CU = 0, ERT_START_KERNEL = 0, ERT_CONFIGURE = 2, ERT_WRITE = 5,
      ERT_KDS_LOCAL = 1, ERT_CQ_SIZE = 0x20000, ERT_CQ_BASE_ADDR = 0x190000,
      ERT_STATUS_REGISTER_ADDR = 0x180000, ERT_CQ_STATUS_REGISTER_ADDR = 0x180058,
      header_word = pack_header,
      ert_bit = 0, polling_bit = 1, cq_int_bit = 4, cdma_bit = 5, dsa52_bit = 31\<rparr>"

definition sample_dev :: xocl_dev where
  "sample_dev = \<lparr>mb_sched_on = False, cdma_on = False, dsa_version = 51\<rparr>"

definition cdma_dev :: xocl_dev where
  "cdma_dev = \<lparr>mb_sched_on = False, cdma_on = True, dsa_version = 52\<rparr>"

definition sample_sched_abi :: sched_abi where
  "sample_sched_abi =
     \<lparr>OP_START_CU = 0, OP_START_KERNEL = 0, OP_CONFIGURE = 2, OP_STOP = 3, OP_ABORT = 4,
      CQ_SIZE = 0x20000,
      ERT_CQ_SLOT_SIZE_REG = 0x0, ERT_CU_OFFSET_REG = 0x4, ERT_CQ_NUM_OF_SLOTS_REG = 0x8,
      ERT_CU_BASE_ADDR_REG = 0xC, ERT_CQ_BASE_ADDR_REG = 0x10, ERT_NUM_OF_CU_REG = 0x14,
      ERT_CU_DMA_ENABLE = 0x18, ERT_HOST_INT_ENABLE = 0x100,
      z_ert_bit = 0, z_polling_bit = 1, z_cq_int_bit = 4, z_cu_dma_bit = 2, z_cu_isr_bit = 3\<rparr>"


text \<open>Packets of the two kinds the properties below are about.\<close>

definition configure_packet :: "u32 \<Rightarrow> u32 list \<Rightarrow> ert_packet" where
  "configure_packet cfg_slot_size cu_addrs =
     \<lparr>pkt_state = ERT_CMD_STATE_NEW, pkt_extra_cu_masks = 0,
      pkt_count = of_nat (5 + length cu_addrs), pkt_opcode = 2, pkt_type = 0,
      pkt_data = [cfg_slot_size, of_nat (length cu_addrs), 16, 0, 0] @ cu_addrs\<rparr>"

definition start_cu_packet :: "u32 \<Rightarrow> u32 list \<Rightarrow> ert_packet" where
  "start_cu_packet cu_mask regmap =
     \<lparr>pkt_state = ERT_CMD_STATE_NEW, pkt_extra_cu_masks = 0,
      pkt_count = of_nat (1 + length regmap), pkt_opcode = 0, pkt_type = 0,
      pkt_data = cu_mask # regmap\<rparr>"

text \<open>
  The MMIO trace the specification gives for starting a CU whose registers are at
  \<open>cu_io\<close>: the words 1 to \<open>n - 1\<close> of the register map, in increasing order, each
  at offset \<open>4 * i\<close>, then the value 1 (AP_START) at offset 0.  The register map
  of a packet begins after its \<open>1 + extra_cu_masks\<close> CU-mask words.
\<close>

definition regmap_word :: "ert_packet \<Rightarrow> nat \<Rightarrow> u32" where
  "regmap_word p i = pkt_data p ! (1 + unat (pkt_extra_cu_masks p) + i)"

definition cu_start_trace :: "ioaddr \<Rightarrow> ert_packet \<Rightarrow> nat \<Rightarrow> (ioaddr \<times> u32) list" where
  "cu_start_trace cu_io p n =
     map (\<lambda>i. (cu_io + 4 * of_nat i, regmap_word p i)) [1..<n] @ [(cu_io, 1)]"

text \<open>
  A command object as \<open>add_cmd\<close> and \<open>scheduler_queue_cmds\<close> leave it for a packet
  without dependencies, and the scheduler state of the second scenario of the
  specification: one CU at \<open>0x10000\<close>, the START_CU command queued under handle 0.
\<close>

definition queued_cmd :: "ert_packet \<Rightarrow> xocl_cmd" where
  "queued_cmd p =
     \<lparr>cmd_bo = 1, cmd_client = 1, cmd_state = ERT_CMD_STATE_QUEUED, cmd_id = 0,
      cmd_cu_idx = - 1, cmd_slot_idx = - 1, cmd_chain_count = 0, cmd_wait_count = 0,
      cmd_chain = replicate 8 None, cmd_packet = p\<rparr>"

definition scenario2 :: xocl_state where
  "scenario2 =
     (probe_state 0)
       \<lparr>exec := (mb_scheduler_probe 0)
          \<lparr>num_slots := 32, num_cus := 1, cu_shift_offset := 16, num_cu_masks := 1,
           configured := True, cu_addr_map := 0x10000 # replicate 127 0\<rparr>,
        cmds := (\<lambda>x. None)(0 \<mapsto> queued_cmd (start_cu_packet 1 [0, 0xAA, 0xBB])),
        command_queue := [0], ctx_list := [1]\<rparr>"

definition zocl_queued_cmd :: "ert_packet \<Rightarrow> sched_cmd" where
  "zocl_queued_cmd p =
     \<lparr>z_state = ERT_CMD_STATE_QUEUED, z_cu_idx = - 1, z_slot_idx = - 1,
      z_cq_slot_idx = 0, z_packet = p\<rparr>"

definition zocl_scenario2 :: zocl_state where
  "zocl_scenario2 =
     \<lparr>z_exec = (sched_init_exec 0)
          \<lparr>num_slots := 32, num_cus := 2, cu_shift_offset := 16, num_cu_masks := 1,
           configured := True\<rparr>,
      z_cmds = (\<lambda>x. None)(0 \<mapsto> zocl_queued_cmd (start_cu_packet 2 [0, 0xAA, 0xBB])),
      z_ert = False, z_poll = 0, z_error = 0, z_pending_cmds = [], z_command_queue = [0],
      z_regs_writes = [], z_ert_hw_writes = []\<rparr>"

text \<open>
  A device with two CUs and a single command-queue slot.  A client configures it
  (slot size equal to the queue size), submits a START_CU command that may run on
  either CU, lets the scheduler start it, and submits a second such command, which
  the scheduler admits to its queue under handle 1.
\<close>

definition cu_free_no_slot :: "fault + xocl_state" where
  "cu_free_no_slot =
     fbind (create_client 1 (probe_state 0)) (\<lambda>s0.
     fbind (add_cmd 1 1 (configure_packet 0x20000 [0x10000, 0x20000]) [] s0) (\<lambda>s1.
     fbind (scheduler_loop sample_abi sample_dev s1) (\<lambda>s2.
     fbind (add_cmd 1 2 (start_cu_packet 3 [0, 0xAA]) [] s2) (\<lambda>s3.
     fbind (scheduler_loop sample_abi sample_dev s3) (\<lambda>s4.
     fbind (add_cmd 1 3 (start_cu_packet 3 [0, 0xBB]) [] s4) scheduler_queue_cmds)))))"

text \<open>The same situation in the zocl driver: CU 0 and the only slot are busy.\<close>

definition zocl_cu_free_no_slot :: zocl_state where
  "zocl_cu_free_no_slot =
     \<lparr>z_exec = (sched_init_exec 0)
          \<lparr>num_slots := 1, num_cus := 2, cu_shift_offset := 16, num_cu_masks := 1,
           configured := True, slot_status := [1, 0, 0, 0], cu_status := [1, 0, 0, 0]\<rparr>,
      z_cmds = (\<lambda>x. None)(1 \<mapsto> zocl_queued_cmd (start_cu_packet 3 [0, 0xBB])),
      z_ert = False, z_poll = 1, z_error = 0, z_pending_cmds = [], z_command_queue = [0, 1],
      z_regs_writes = [], z_ert_hw_writes = []\<rparr>"

text \<open>
  A client opens the freshly probed device and submits one packet without
  dependencies; the scheduler admits it to its queue (under handle 0).
\<close>

definition submit_first :: "ert_packet \<Rightarrow> fault + xocl_state" where
  "submit_first pkt =
     fbind (create_client 1 (probe_state 0)) (\<lambda>s0.
     fbind (add_cmd 1 1 pkt [] s0) scheduler_queue_cmds)"

text \<open>
  What the submit path of a command \<open>x\<close> leaves alone: every other command
  object, the state and the wait count of \<open>x\<close> itself, and the host-notification
  side (the trigger counters, the context list and the wake-ups of the poll queue).
\<close>

definition submit_frame :: "nat \<Rightarrow> xocl_state \<Rightarrow> xocl_state \<Rightarrow> bool" where
  "submit_frame x s s' \<longleftrightarrow>
     (\<forall>y. y \<noteq> x \<longrightarrow> cmds s' y = cmds s y)
     \<and> (\<forall>c. cmds s x = Some c \<longrightarrow>
           (\<exists>c'. cmds s' x = Some c' \<and> cmd_state c' = cmd_state c
                 \<and> cmd_wait_count c' = cmd_wait_count c))
     \<and> poll_wakeups s' = poll_wakeups s
     \<and> client_trigger s' = client_trigger s
     \<and> ctx_list s' = ctx_list s"




text \<open>
  A configured core on which a CONFIGURE command is queued again (both drivers),
  and a command in each of the terminal states.
\<close>

definition second_configure :: xocl_state where
  "second_configure =
     scenario2\<lparr>cmds := (\<lambda>x. None)(0 \<mapsto> queued_cmd (configure_packet 4096 [0x10000]))\<rparr>"

definition zocl_second_configure :: zocl_state where
  "zocl_second_configure =
     zocl_scenario2\<lparr>z_cmds :=
       (\<lambda>x. None)(0 \<mapsto> zocl_queued_cmd (configure_packet 4096 [0x10000]))\<rparr>"


section \<open>Verified properties\<close>


lemma unat_slot_mask_idx: "unat (slot_mask_idx i) = unat i div 32"
  by (simp add: slot_mask_idx_def drop_bit_eq_div unat_div)

lemma slot_idx_in_mask_take: "slot_idx_in_mask i = take_bit 5 i"
proof -
  have "push_bit 5 (drop_bit 5 i) + take_bit 5 i = i" by (rule bits_ident)
  then have "i - push_bit 5 (drop_bit 5 i) = take_bit 5 i"
    by (metis add_diff_cancel_left')
  then show ?thesis by (simp only: slot_idx_in_mask_def slot_mask_idx_def)
qed

lemma unat_slot_idx_in_mask: "unat (slot_idx_in_mask i) = unat i mod 32"
  by (simp add: slot_idx_in_mask_take take_bit_eq_mod unat_mod)


lemma bit_toggle: "k < 32 \<Longrightarrow> bit ((x::u32) XOR push_bit k 1) b \<longleftrightarrow> (if b = k then \<not> bit x b else bit x b)"
  by (auto simp: bit_xor_iff bit_push_bit_iff bit_1_iff bit_exp_iff dest: bit_imp_le_length)

lemma bit_toggle_exp: "k < 32 \<Longrightarrow> bit ((x::u32) XOR 2 ^ k) b \<longleftrightarrow> (if b = k then \<not> bit x b else bit x b)"
  using bit_toggle [of k x b] by simp


text \<open>
  Claim C6, as amended.  For a core with its four slot-mask words and at most 128
  slots, \<open>release_slot_idx\<close> on a slot index \<open>i < num_slots\<close> returns the core
  with only \<open>slot_status\<close> changed: bit \<open>i mod 32\<close> of mask word \<open>i div 32\<close> is
  flipped and every other bit of the bitmap is unchanged.  So the bit is cleared
  when the slot was busy, and set when it was free.
\<close>

theorem release_slot_idx_flips_bit:
  assumes len: "length (slot_status core) = MAX_U32_SLOT_MASKS"
      and i: "i < num_slots core" and n: "num_slots core \<le> 128"
  shows "\<exists>st. release_slot_idx core i = Inr (core\<lparr>slot_status := st\<rparr>)
           \<and> length st = MAX_U32_SLOT_MASKS
           \<and> (\<forall>w<MAX_U32_SLOT_MASKS. \<forall>b<32.
                 bit (st ! w) b =
                   (if w = unat i div 32 \<and> b = unat i mod 32
                    then \<not> bit (slot_status core ! w) b
                    else bit (slot_status core ! w) b))"
proof -
  from i n have "i < 128" by simp
  then have i128: "unat i < 128" by (simp add: word_less_nat_alt)
  then have w4: "unat i div 32 < 4" by simp
  have p32: "unat i mod 32 < 32" by simp
  let ?w = "unat i div 32" and ?b = "unat i mod 32"
  let ?st = "(slot_status core)[?w := (slot_status core ! ?w) XOR push_bit ?b 1]"
  have rel: "release_slot_idx core i = Inr (core\<lparr>slot_status := ?st\<rparr>)"
    using w4 len
    by (simp add: release_slot_idx_def array_read_def unat_slot_mask_idx
        unat_slot_idx_in_mask MAX_U32_SLOT_MASKS_def Let_def)
  have bits: "\<forall>w<MAX_U32_SLOT_MASKS. \<forall>b<32.
      bit (?st ! w) b =
        (if w = ?w \<and> b = ?b then \<not> bit (slot_status core ! w) b
         else bit (slot_status core ! w) b)"
    using w4 len p32
    by (auto simp: nth_list_update bit_toggle_exp MAX_U32_SLOT_MASKS_def)
  have l: "length ?st = MAX_U32_SLOT_MASKS" using len by simp
  from rel l bits show ?thesis by blast
qed


theorem release_slot_idx_flips_bit_witness:
  "length (slot_status ((mb_scheduler_probe 0)\<lparr>slot_status := [8, 0, 0, 0]\<rparr>)) = MAX_U32_SLOT_MASKS
   \<and> 3 < num_slots ((mb_scheduler_probe 0)\<lparr>slot_status := [8, 0, 0, 0]\<rparr>)
   \<and> num_slots ((mb_scheduler_probe 0)\<lparr>slot_status := [8, 0, 0, 0]\<rparr>) \<le> 128
   \<and> (\<exists>st. release_slot_idx ((mb_scheduler_probe 0)\<lparr>slot_status := [8, 0, 0, 0]\<rparr>) 3
             = Inr ((mb_scheduler_probe 0)\<lparr>slot_status := st\<rparr>)
           \<and> \<not> bit (st ! 0) 3)"
  using release_slot_idx_flips_bit [of "(mb_scheduler_probe 0)\<lparr>slot_status := [8, 0, 0, 0]\<rparr>" 3]
  by (auto simp: mb_scheduler_probe_def reset_exec_core_def MAX_U32_SLOT_MASKS_def)

text \<open>
  Claim C6 as stated fails on a free slot: right after probe no slot is busy,
  slot 0 is below \<open>num_slots\<close>, and releasing it leaves bit 0 of mask word 0 set.
\<close>

theorem release_slot_idx_free_slot_counterexample:
  "0 < num_slots (mb_scheduler_probe 0)
   \<and> \<not> bit (slot_status (mb_scheduler_probe 0) ! 0) 0
   \<and> (case release_slot_idx (mb_scheduler_probe 0) 0 of
         Inl f \<Rightarrow> False
       | Inr core \<Rightarrow> bit (slot_status core ! 0) 0)"
  by (simp add: mb_scheduler_probe_def reset_exec_core_def release_slot_idx_def array_read_def
      slot_mask_idx_def slot_idx_in_mask_def MAX_U32_SLOT_MASKS_def)














lemma regmap_offset: "i < 2 ^ 30 \<Longrightarrow> (ucast (push_bit 2 (of_nat i :: u32)) :: ioaddr) = 4 * of_nat i"
proof -
  assume i: "i < 2 ^ 30"
  then have lt: "4 * i < 2 ^ 32" by simp
  have "push_bit 2 (of_nat i :: u32) = of_nat (4 * i)"
    by (simp add: push_bit_eq_mult)
  moreover have "(ucast (of_nat (4 * i) :: u32) :: ioaddr) = of_nat (4 * i)"
    using lt by (simp add: unsigned_of_nat take_bit_nat_eq_self del: of_nat_mult)
  ultimately show ?thesis by simp
qed

lemma write_regmap_trace:
  assumes "1 + unat (pkt_extra_cu_masks p) + n \<le> length (pkt_data p)" and "n \<le> 2 ^ 30"
  shows "write_regmap i n cu_io p log =
           Inr (log @ map (\<lambda>j. (cu_io + 4 * of_nat j, regmap_word p j)) [i..<n])"
  using assms
proof (induction i n cu_io p log rule: write_regmap.induct)
  case (1 i rsize cu_io p log)
  show ?case
  proof (cases "i < rsize")
    case False
    then show ?thesis by (simp add: write_regmap.simps [of i])
  next
    case True
    with "1.prems" have rd: "packet_read (pkt_data p) (1 + unat (pkt_extra_cu_masks p) + i)
        = Inr (regmap_word p i)"
      by (simp add: packet_read_def regmap_word_def)
    from True "1.prems" have off: "(ucast (push_bit 2 (of_nat i :: u32)) :: ioaddr) = 4 * of_nat i"
      by (intro regmap_offset) simp
    have "write_regmap (i + 1) rsize cu_io p (log @ [(cu_io + ucast (push_bit 2 (of_nat i :: u32)), regmap_word p i)])
        = Inr ((log @ [(cu_io + ucast (push_bit 2 (of_nat i :: u32)), regmap_word p i)])
               @ map (\<lambda>j. (cu_io + 4 * of_nat j, regmap_word p j)) [i + 1..<rsize])"
      using "1.IH" [OF True rd] "1.prems" by simp
    then show ?thesis
      using True rd off by (subst write_regmap.simps) (simp add: upt_conv_Cons)
  qed
qed


lemma get_cmd_Some [simp]: "cmds s x = Some c \<Longrightarrow> get_cmd s x = Inr c"
  by (simp add: get_cmd_def)

lemma z_get_cmd_Some [simp]: "z_cmds s x = Some c \<Longrightarrow> z_get_cmd s x = Inr c"
  by (simp add: z_get_cmd_def)

lemma unat_cu_index: "0 \<le> cu \<Longrightarrow> cu < 128 \<Longrightarrow> unat (word_of_int cu :: u32) = nat cu"
proof -
  assume a: "0 \<le> cu" "cu < 128"
  then have "take_bit 32 cu = cu" by (simp add: take_bit_int_eq_self)
  then show ?thesis by (simp add: unat_eq_nat_uint uint_word_of_int_eq)
qed

lemma regmap_fits:
  assumes "m \<le> payload_size p"
  shows "unat (payload_size p - m) \<le> 2 ^ 30"
proof -
  have "unat (pkt_count p) < 2048"
    using unsigned_less [of "pkt_count p", where 'a = nat] by simp
  then have "unat (payload_size p) < 2048"
    by (simp add: payload_size_def unsigned_ucast_eq take_bit_nat_eq_self)
  moreover have "unat (payload_size p - m) \<le> unat (payload_size p)"
    using assms by (simp add: unat_sub)
  ultimately show ?thesis by simp
qed

lemma configure_cu_trace_xocl:
  assumes "cmds s x = Some c" and "0 \<le> cu" and "cu < 128"
      and "length (cu_addr_map (exec s)) = MAX_CUS"
      and "cu_masks K (cmd_packet c) \<le> payload_size (cmd_packet c)"
      and "1 + unat (pkt_extra_cu_masks (cmd_packet c)) + unat (regmap_size K (cmd_packet c))
             \<le> length (pkt_data (cmd_packet c))"
  shows "configure_cu K x cu s =
          Inr (s\<lparr>mmio_writes := mmio_writes s
                   @ cu_start_trace (base (exec s) + ucast (cu_addr_map (exec s) ! nat cu))
                       (cmd_packet c) (unat (regmap_size K (cmd_packet c)))\<rparr>)"
proof -
  let ?p = "cmd_packet c" and ?io = "base (exec s) + ucast (cu_addr_map (exec s) ! nat cu)"
  have n30: "unat (regmap_size K ?p) \<le> 2 ^ 30"
    unfolding regmap_size_def using assms(5) by (rule regmap_fits)
  have idx: "unat (word_of_int cu :: u32) = nat cu"
    using assms(2,3) by (rule unat_cu_index)
  have rd: "cu_idx_to_addr (exec s) (word_of_int cu) = Inr (cu_addr_map (exec s) ! nat cu)"
    using assms(2,3,4) idx by (simp add: cu_idx_to_addr_def array_read_def MAX_CUS_def)
  have tr: "write_regmap 1 (unat (regmap_size K ?p)) ?io ?p (mmio_writes s) =
      Inr (mmio_writes s @ map (\<lambda>j. (?io + 4 * of_nat j, regmap_word ?p j))
             [1..<unat (regmap_size K ?p)])"
    using assms(6) n30 by (rule write_regmap_trace)
  show ?thesis
    using assms(1) rd tr
    by (simp add: configure_cu_def Let_def cu_start_trace_def)
qed

lemma configure_cu_trace_zocl:
  assumes "z_cmds zs x = Some zc"
      and "zocl_cu_masks Z (z_packet zc) \<le> payload_size (z_packet zc)"
      and "1 + unat (pkt_extra_cu_masks (z_packet zc)) + unat (zocl_regmap_size Z (z_packet zc))
             \<le> length (pkt_data (z_packet zc))"
  shows "zocl_configure_cu Z x cu zs =
          Inr (zs\<lparr>z_regs_writes := z_regs_writes zs
                   @ cu_start_trace
                       (base (z_exec zs) + ucast (cu_idx_to_offset (z_exec zs) (word_of_int cu)))
                       (z_packet zc) (unat (zocl_regmap_size Z (z_packet zc)))\<rparr>)"
proof -
  let ?p = "z_packet zc"
  let ?io = "base (z_exec zs) + ucast (cu_idx_to_offset (z_exec zs) (word_of_int cu))"
  have n30: "unat (zocl_regmap_size Z ?p) \<le> 2 ^ 30"
    unfolding zocl_regmap_size_def using assms(2) by (rule regmap_fits)
  have tr: "write_regmap 1 (unat (zocl_regmap_size Z ?p)) ?io ?p (z_regs_writes zs) =
      Inr (z_regs_writes zs @ map (\<lambda>j. (?io + 4 * of_nat j, regmap_word ?p j))
             [1..<unat (zocl_regmap_size Z ?p)])"
    using assms(3) n30 by (rule write_regmap_trace)
  show ?thesis
    using assms(1) tr
    by (simp add: zocl_configure_cu_def Let_def cu_start_trace_def)
qed

text \<open>
  Claim C8.  For a command whose packet holds its CU masks and a register map of
  \<open>n\<close> words, dispatched to CU \<open>cu\<close>, \<open>configure_cu\<close> appends to the MMIO writes
  exactly \<open>cu_start_trace\<close>: \<open>regmap[i]\<close> at \<open>base + cu_addr(cu) + 4 * i\<close> for
  \<open>i = 1 .. n - 1\<close> in increasing order, then the value 1 at \<open>base + cu_addr(cu)\<close>;
  word 0 of the register map is not written.  In \<open>mb_scheduler.c\<close> the CU address
  is \<open>cu_addr_map[cu]\<close>, in \<open>sched_exec.c\<close> it is \<open>cu << cu_shift_offset\<close>.
\<close>

theorem configure_cu_mmio_trace:
  "(cmds s x = Some c \<and> 0 \<le> cu \<and> cu < 128
      \<and> length (cu_addr_map (exec s)) = MAX_CUS
      \<and> cu_masks K (cmd_packet c) \<le> payload_size (cmd_packet c)
      \<and> 1 + unat (pkt_extra_cu_masks (cmd_packet c)) + unat (regmap_size K (cmd_packet c))
             \<le> length (pkt_data (cmd_packet c))
    \<longrightarrow> configure_cu K x cu s =
          Inr (s\<lparr>mmio_writes := mmio_writes s
                   @ cu_start_trace (base (exec s) + ucast (cu_addr_map (exec s) ! nat cu))
                       (cmd_packet c) (unat (regmap_size K (cmd_packet c)))\<rparr>))
 \<and> (z_cmds zs y = Some zc
      \<and> zocl_cu_masks Z (z_packet zc) \<le> payload_size (z_packet zc)
      \<and> 1 + unat (pkt_extra_cu_masks (z_packet zc)) + unat (zocl_regmap_size Z (z_packet zc))
             \<le> length (pkt_data (z_packet zc))
    \<longrightarrow> zocl_configure_cu Z y zcu zs =
          Inr (zs\<lparr>z_regs_writes := z_regs_writes zs
                   @ cu_start_trace
                       (base (z_exec zs) + ucast (cu_idx_to_offset (z_exec zs) (word_of_int zcu)))
                       (z_packet zc) (unat (zocl_regmap_size Z (z_packet zc)))\<rparr>))"
  using configure_cu_trace_xocl [of s x c cu K] configure_cu_trace_zocl [of zs y zc Z zcu]
  by blast

theorem configure_cu_mmio_trace_witness:
  "cmds scenario2 0 = Some (queued_cmd (start_cu_packet 1 [0, 0xAA, 0xBB]))
   \<and> length (cu_addr_map (exec scenario2)) = MAX_CUS
   \<and> cu_masks sample_abi (start_cu_packet 1 [0, 0xAA, 0xBB])
        \<le> payload_size (start_cu_packet 1 [0, 0xAA, 0xBB])
   \<and> unat (regmap_size sample_abi (start_cu_packet 1 [0, 0xAA, 0xBB])) = 3
   \<and> configure_cu sample_abi 0 0 scenario2 =
        Inr (scenario2\<lparr>mmio_writes := mmio_writes scenario2 @
               cu_start_trace 0x10000 (start_cu_packet 1 [0, 0xAA, 0xBB]) 3\<rparr>)
   \<and> cu_start_trace 0x10000 (start_cu_packet 1 [0, 0xAA, 0xBB]) 3
        = [(0x10004, 0xAA), (0x10008, 0xBB), (0x10000, 1)]
   \<and> z_cmds zocl_scenario2 0 = Some (zocl_queued_cmd (start_cu_packet 2 [0, 0xAA, 0xBB]))
   \<and> zocl_configure_cu sample_sched_abi 0 1 zocl_scenario2 =
        Inr (zocl_scenario2\<lparr>z_regs_writes := z_regs_writes zocl_scenario2 @
               cu_start_trace 0x10000 (start_cu_packet 2 [0, 0xAA, 0xBB]) 3\<rparr>)"
proof -
  let ?P = "start_cu_packet 1 [0, 0xAA, 0xBB]" and ?Q = "start_cu_packet 2 [0, 0xAA, 0xBB]"
  have p: "cmd_packet (queued_cmd ?P) = ?P" "z_packet (zocl_queued_cmd ?Q) = ?Q"
    by (simp_all add: queued_cmd_def zocl_queued_cmd_def)
  have h1: "cmds scenario2 0 = Some (queued_cmd ?P)" by (simp add: scenario2_def)
  have h2: "length (cu_addr_map (exec scenario2)) = MAX_CUS" by code_simp
  have h3: "cu_masks sample_abi ?P \<le> payload_size ?P" by code_simp
  have h4: "1 + unat (pkt_extra_cu_masks ?P) + unat (regmap_size sample_abi ?P)
              \<le> length (pkt_data ?P)" by code_simp
  have n: "unat (regmap_size sample_abi ?P) = 3" by code_simp
  have io: "base (exec scenario2) + ucast (cu_addr_map (exec scenario2) ! nat 0) = 0x10000"
    by code_simp
  have t: "cu_start_trace 0x10000 ?P 3 = [(0x10004, 0xAA), (0x10008, 0xBB), (0x10000, 1)]"
    by code_simp
  have z1: "z_cmds zocl_scenario2 0 = Some (zocl_queued_cmd ?Q)" by (simp add: zocl_scenario2_def)
  have z3: "zocl_cu_masks sample_sched_abi ?Q \<le> payload_size ?Q" by code_simp
  have z4: "1 + unat (pkt_extra_cu_masks ?Q) + unat (zocl_regmap_size sample_sched_abi ?Q)
              \<le> length (pkt_data ?Q)" by code_simp
  have zn: "unat (zocl_regmap_size sample_sched_abi ?Q) = 3" by code_simp
  have zio: "base (z_exec zocl_scenario2)
               + ucast (cu_idx_to_offset (z_exec zocl_scenario2) (word_of_int 1)) = 0x10000"
    by code_simp
  have "configure_cu sample_abi 0 0 scenario2 =
        Inr (scenario2\<lparr>mmio_writes := mmio_writes scenario2 @
               cu_start_trace 0x10000 ?P 3\<rparr>)
     \<and> zocl_configure_cu sample_sched_abi 0 1 zocl_scenario2 =
        Inr (zocl_scenario2\<lparr>z_regs_writes := z_regs_writes zocl_scenario2 @
               cu_start_trace 0x10000 ?Q 3\<rparr>)"
    using configure_cu_mmio_trace [of scenario2 0 "queued_cmd ?P" 0 sample_abi
        zocl_scenario2 0 "zocl_queued_cmd ?Q" sample_sched_abi 1]
      h1 h2 h3 h4 z1 z3 z4
    by (simp only: p n io zn zio) simp
  with h1 h2 h3 n t z1 show ?thesis by simp
qed

text \<open>
  Claim C1 does not hold of the code.  In \<open>cu_free_no_slot\<close> CU 0 and the only
  slot are busy and command 1 is queued; \<open>get_free_cu\<close> gives it CU 1 and
  \<open>acquire_slot_idx\<close> then returns \<open>-1\<close>.  \<open>penguin_submit\<close> returns failure and the
  command stays Queued, but the busy bit of CU 1 stays set: \<open>cu_status\<close> goes from
  \<open>[1, 0, 0, 0]\<close> to \<open>[3, 0, 0, 0]\<close>.  The zocl \<open>penguin_submit\<close> does the same.
\<close>

theorem penguin_submit_leaves_cu_busy:
  "(case cu_free_no_slot of
      Inl f \<Rightarrow> False
    | Inr s \<Rightarrow>
        num_slots (exec s) = 1 \<and> slot_status (exec s) = [1, 0, 0, 0]
        \<and> cu_status (exec s) = [1, 0, 0, 0]
        \<and> map_option cmd_state (cmds s 1) = Some ERT_CMD_STATE_QUEUED
        \<and> map_option cmd_packet (cmds s 1) = Some (start_cu_packet 3 [0, 0xBB])
        \<and> (case get_free_cu sample_abi (start_cu_packet 3 [0, 0xBB]) (exec s) of
              Inl f \<Rightarrow> False
            | Inr (cu, exec1) \<Rightarrow>
                cu = 1 \<and> (case acquire_slot_idx exec1 of
                            Inl f \<Rightarrow> False
                          | Inr (idx, exec2) \<Rightarrow> idx = - 1))
        \<and> (case penguin_submit sample_abi 1 s of
              Inl f \<Rightarrow> False
            | Inr (ok, s') \<Rightarrow>
                \<not> ok \<and> cu_status (exec s') = [3, 0, 0, 0]
                \<and> map_option cmd_state (cmds s' 1) = Some ERT_CMD_STATE_QUEUED))
   \<and> cu_status (z_exec zocl_cu_free_no_slot) = [1, 0, 0, 0]
   \<and> (case zocl_penguin_submit sample_sched_abi 1 zocl_cu_free_no_slot of
         Inl f \<Rightarrow> False
       | Inr (ok, s') \<Rightarrow>
           \<not> ok \<and> cu_status (z_exec s') = [3, 0, 0, 0]
           \<and> map_option z_state (z_cmds s' 1) = Some ERT_CMD_STATE_QUEUED)"
  by code_simp


lemma copy_cu_addrs_copies:
  assumes "copy_cu_addrs i n cfg amap = Inr amap'"
  shows "length amap' = length amap
       \<and> (\<forall>j<length amap. amap' ! j = (if i \<le> j \<and> j < n then cfg ! (5 + j) else amap ! j))
       \<and> (i < n \<longrightarrow> n \<le> length amap)"
  using assms
proof (induction i n cfg amap arbitrary: amap' rule: copy_cu_addrs.induct)
  case (1 i n cfg amap)
  show ?case
  proof (cases "i < n")
    case False
    with "1.prems" show ?thesis by (auto simp: copy_cu_addrs.simps [of i])
  next
    case True
    from "1.prems" True obtain a am where rd: "packet_read cfg (5 + i) = Inr a"
        and wr: "array_write amap i a = Inr am"
        and rec: "copy_cu_addrs (i + 1) n cfg am = Inr amap'"
      by (subst (asm) copy_cu_addrs.simps) (auto split: sum.splits)
    from rd have a: "a = cfg ! (5 + i)" by (auto simp: packet_read_def split: if_splits)
    from wr have am: "am = amap[i := a]" and il: "i < length amap"
      by (auto simp: array_write_def split: if_splits)
    from "1.IH" [OF True rd wr rec]
    have ih: "length amap' = length am"
      "\<forall>j<length am. amap' ! j = (if i + 1 \<le> j \<and> j < n then cfg ! (5 + j) else am ! j)"
      "i + 1 < n \<longrightarrow> n \<le> length am" by simp_all
    have "n \<le> length amap"
    proof (cases "i + 1 < n")
      case True with ih(3) am show ?thesis by simp
    next
      case False with True il show ?thesis by simp
    qed
    moreover have "\<forall>j<length amap. amap' ! j = (if i \<le> j \<and> j < n then cfg ! (5 + j) else amap ! j)"
      using ih(2) am a True il by (auto simp: nth_list_update)
    ultimately show ?thesis using ih(1) am by simp
  qed
qed

lemma copy_cu_addrs_overrun:
  assumes "i \<le> length amap" and "length amap < n" and "5 + length amap < length cfg"
  shows "copy_cu_addrs i n cfg amap = Inl IndexOutOfBounds"
  using assms
proof (induction i n cfg amap rule: copy_cu_addrs.induct)
  case (1 i n cfg amap)
  from "1.prems" have lt: "i < n" by simp
  from "1.prems" have rd: "packet_read cfg (5 + i) = Inr (cfg ! (5 + i))"
    by (simp add: packet_read_def)
  show ?case
  proof (cases "i < length amap")
    case False
    then have "array_write amap i (cfg ! (5 + i)) = Inl IndexOutOfBounds"
      by (simp add: array_write_def)
    with lt rd show ?thesis by (subst copy_cu_addrs.simps) simp
  next
    case True
    then have wr: "array_write amap i (cfg ! (5 + i)) = Inr (amap[i := cfg ! (5 + i)])"
      by (simp add: array_write_def)
    have "copy_cu_addrs (i + 1) n cfg (amap[i := cfg ! (5 + i)]) = Inl IndexOutOfBounds"
      using "1.IH" [OF lt rd wr] "1.prems" True by simp
    with lt rd wr show ?thesis by (subst copy_cu_addrs.simps) simp
  qed
qed

lemma num_cu_masks_ceil:
  assumes "1 \<le> unat (N :: u32)"
  shows "unat (drop_bit 5 (N - 1) + 1) = (unat N + 31) div 32"
proof -
  have n32: "unat N < 2 ^ 32" using unsigned_less [of N, where 'a = nat] by simp
  from assms have "1 \<le> N" by (simp add: word_le_nat_alt)
  then have m: "unat (N - 1) = unat N - 1" by (simp add: unat_sub)
  have "unat (drop_bit 5 (N - 1)) = unat (N - 1) div 32"
    by (simp add: drop_bit_eq_div unat_div)
  with m have d: "unat (drop_bit 5 (N - 1)) = (unat N - 1) div 32" by simp
  from n32 have small: "(unat N - 1) div 32 + 1 < 2 ^ 32" by simp
  have "unat (drop_bit 5 (N - 1) + 1)
          = (unat (drop_bit 5 (N - 1)) + unat (1 :: u32)) mod 2 ^ LENGTH(32)"
    by (rule unat_word_ariths(1))
  with d small have "unat (drop_bit 5 (N - 1) + 1) = (unat N - 1) div 32 + 1"
    by simp
  moreover from assms have "(unat N - 1) div 32 + 1 = (unat N + 31) div 32" by arith
  ultimately show ?thesis by simp
qed

lemma configure_success:
  assumes ok: "configure K xdev x s = Inr (0, s')" and c: "cmds s x = Some c"
      and N: "N = pkt_data (cmd_packet c) ! 1"
  shows "\<exists>amap. payload_size (cmd_packet c) = 5 + N \<and> \<not> configured (exec s)
           \<and> configured (exec s')
           \<and> copy_cu_addrs 0 (unat N) (pkt_data (cmd_packet c)) (cu_addr_map (exec s)) = Inr amap
           \<and> num_cu_masks (exec s') = drop_bit 5 (N - 1) + 1
           \<and> (cdma_on xdev \<longrightarrow> unat N < length amap
                 \<and> cu_addr_map (exec s') = amap[unat N := 0x250000]
                 \<and> num_cus (exec s') = N + 1)
           \<and> (\<not> cdma_on xdev \<longrightarrow> cu_addr_map (exec s') = amap \<and> num_cus (exec s') = N)"
  using ok c N
  by (auto simp: configure_def Let_def packet_read_def array_write_def put_cmd_def
      split: if_splits sum.splits prod.splits)

text \<open>
  Claim C4, as amended.  If \<open>configure\<close> returns success for a CONFIGURE command
  whose payload names \<open>N \<ge> 1\<close> CUs, then the command had \<open>count = 5 + N\<close>, the core
  was unconfigured and is now configured, \<open>num_cu_masks\<close> is \<open>ceil(N / 32)\<close>,
  \<open>cu_addr_map[i]\<close> is the payload's \<open>cu_addr[i]\<close> for every \<open>i < N\<close>, and \<open>num_cus\<close>
  is \<open>N\<close>, or \<open>N + 1\<close> on a device with the CDMA engine, whose address \<open>0x250000\<close>
  is then stored at \<open>cu_addr_map[N]\<close>.
\<close>

theorem configure_sets_cus:
  assumes ok: "configure K xdev x s = Inr (0, s')" and c: "cmds s x = Some c"
      and N: "N = pkt_data (cmd_packet c) ! 1" and pos: "1 \<le> unat N"
  shows "payload_size (cmd_packet c) = 5 + N \<and> \<not> configured (exec s) \<and> configured (exec s')
       \<and> num_cus (exec s') = (if cdma_on xdev then N + 1 else N)
       \<and> unat (num_cu_masks (exec s')) = (unat N + 31) div 32
       \<and> (\<forall>i<unat N. cu_addr_map (exec s') ! i = pkt_data (cmd_packet c) ! (5 + i))
       \<and> (cdma_on xdev \<longrightarrow> cu_addr_map (exec s') ! unat N = 0x250000)"
proof -
  from configure_success [OF ok c N] obtain amap where
        v: "payload_size (cmd_packet c) = 5 + N" "\<not> configured (exec s)" "configured (exec s')"
    and cp: "copy_cu_addrs 0 (unat N) (pkt_data (cmd_packet c)) (cu_addr_map (exec s)) = Inr amap"
    and m: "num_cu_masks (exec s') = drop_bit 5 (N - 1) + 1"
    and f1: "cdma_on xdev \<longrightarrow> unat N < length amap
                 \<and> cu_addr_map (exec s') = amap[unat N := 0x250000]
                 \<and> num_cus (exec s') = N + 1"
    and f2: "\<not> cdma_on xdev \<longrightarrow> cu_addr_map (exec s') = amap \<and> num_cus (exec s') = N"
    by blast
  from copy_cu_addrs_copies [OF cp] pos
  have len: "unat N \<le> length amap"
    and cpy: "\<forall>j<unat N. amap ! j = pkt_data (cmd_packet c) ! (5 + j)"
    by auto
  have masks: "unat (num_cu_masks (exec s')) = (unat N + 31) div 32"
    using m num_cu_masks_ceil [OF pos] by simp
  have addrs: "\<forall>i<unat N. cu_addr_map (exec s') ! i = pkt_data (cmd_packet c) ! (5 + i)"
    using f1 f2 cpy by (cases "cdma_on xdev") (auto simp: nth_list_update)
  have cd: "cdma_on xdev \<longrightarrow> cu_addr_map (exec s') ! unat N = 0x250000"
    using f1 by auto
  from f1 f2 have nc: "num_cus (exec s') = (if cdma_on xdev then N + 1 else N)"
    by auto
  from v nc masks addrs cd show ?thesis by blast
qed

text \<open>
  Claim C4 as stated fails in two ways.  On a device with the CDMA engine a
  CONFIGURE with \<open>N = 1\<close> succeeds and leaves \<open>num_cus = 2\<close>.  A CONFIGURE with
  \<open>N = 0\<close> succeeds and leaves \<open>num_cu_masks = 0x8000000\<close>, not 0, because
  \<open>num_cus - 1\<close> wraps around.
\<close>

theorem configure_sets_cus_counterexample:
  "(case submit_first (configure_packet 4096 [0x10000]) of
      Inl f \<Rightarrow> False
    | Inr s \<Rightarrow>
        map_option cmd_packet (cmds s 0) = Some (configure_packet 4096 [0x10000])
        \<and> pkt_count (configure_packet 4096 [0x10000]) = 5 + 1
        \<and> \<not> configured (exec s)
        \<and> (case configure sample_abi cdma_dev 0 s of
              Inl f \<Rightarrow> False
            | Inr (rc, s') \<Rightarrow> rc = 0 \<and> num_cus (exec s') = 2))
   \<and> (case submit_first (configure_packet 4096 []) of
      Inl f \<Rightarrow> False
    | Inr s \<Rightarrow>
        map_option cmd_packet (cmds s 0) = Some (configure_packet 4096 [])
        \<and> pkt_count (configure_packet 4096 []) = 5 + 0
        \<and> \<not> configured (exec s)
        \<and> (case configure sample_abi sample_dev 0 s of
              Inl f \<Rightarrow> False
            | Inr (rc, s') \<Rightarrow> rc = 0 \<and> num_cus (exec s') = 0
                               \<and> num_cu_masks (exec s') = 0x8000000))"
  by code_simp

text \<open>
  Claim C10.  A client opens the probed device and submits a CONFIGURE packet that
  names 129 CUs with \<open>count = 5 + 129\<close>.  The packet passes the validation of
  \<open>configure\<close> on the unconfigured core, the copy loop then writes past the 128
  entries of \<open>cu_addr_map\<close>, and so the scheduler's pass over its queue ends in
  the index fault.
\<close>

theorem configure_overruns_cu_addr_map:
  "payload_size (configure_packet 4096 (replicate 129 0x10000))
     = 5 + pkt_data (configure_packet 4096 (replicate 129 0x10000)) ! 1
   \<and> MAX_CUS < unat (pkt_data (configure_packet 4096 (replicate 129 0x10000)) ! 1)
   \<and> copy_cu_addrs 0 129 (pkt_data (configure_packet 4096 (replicate 129 0x10000)))
        (replicate MAX_CUS 0) = Inl IndexOutOfBounds
   \<and> (case submit_first (configure_packet 4096 (replicate 129 0x10000)) of
         Inl f \<Rightarrow> False
       | Inr s \<Rightarrow>
           command_queue s = [0] \<and> \<not> configured (exec s)
           \<and> cu_addr_map (exec s) = replicate MAX_CUS 0
           \<and> map_option cmd_packet (cmds s 0)
                = Some (configure_packet 4096 (replicate 129 0x10000))
           \<and> (case configure sample_abi sample_dev 0 s of
                 Inl f \<Rightarrow> f = IndexOutOfBounds | Inr r \<Rightarrow> False)
           \<and> (case scheduler_iterate_cmds sample_abi sample_dev s of
                 Inl f \<Rightarrow> f = IndexOutOfBounds | Inr s' \<Rightarrow> False))"
  by code_simp

theorem configure_sets_cus_witness:
  "(case submit_first (configure_packet 4096 [0x10000, 0x20000]) of
      Inl f \<Rightarrow> False
    | Inr s \<Rightarrow>
        (case configure sample_abi cdma_dev 0 s of
           Inl f \<Rightarrow> False
         | Inr (rc, s') \<Rightarrow>
             rc = 0 \<and> configured (exec s') \<and> num_cus (exec s') = 3
             \<and> unat (num_cu_masks (exec s')) = 1
             \<and> cu_addr_map (exec s') ! 0 = 0x10000 \<and> cu_addr_map (exec s') ! 1 = 0x20000
             \<and> cu_addr_map (exec s') ! 2 = 0x250000))"
proof -
  let ?P = "configure_packet 4096 [0x10000, 0x20000]"
  have "case submit_first ?P of
          Inl f \<Rightarrow> False
        | Inr s \<Rightarrow> (case cmds s 0 of None \<Rightarrow> False | Some c \<Rightarrow> cmd_packet c = ?P)
                   \<and> (case configure sample_abi cdma_dev 0 s of
                         Inl f \<Rightarrow> False | Inr (rc, s') \<Rightarrow> rc = 0)"
    by code_simp
  then obtain s c s' where s: "submit_first ?P = Inr s"
      and c: "cmds s 0 = Some c" and p: "cmd_packet c = ?P"
      and ok: "configure sample_abi cdma_dev 0 s = Inr (0, s')"
    by (auto split: sum.splits option.splits prod.splits)
  have d: "pkt_data ?P ! 1 = 2" "pkt_data ?P ! (5 + 0) = 0x10000" "pkt_data ?P ! (5 + 1) = 0x20000"
    "cdma_on cdma_dev"
    by (simp_all add: configure_packet_def cdma_dev_def)
  have pos: "1 \<le> unat (2 :: u32)" by simp
  from configure_sets_cus [OF ok c _ pos] p d
  have "configured (exec s') \<and> num_cus (exec s') = 3
        \<and> unat (num_cu_masks (exec s')) = 1
        \<and> (\<forall>i<2. cu_addr_map (exec s') ! i = pkt_data ?P ! (5 + i))
        \<and> cu_addr_map (exec s') ! 2 = 0x250000"
    by simp
  then have "configured (exec s') \<and> num_cus (exec s') = 3
        \<and> unat (num_cu_masks (exec s')) = 1
        \<and> cu_addr_map (exec s') ! 0 = 0x10000 \<and> cu_addr_map (exec s') ! 1 = 0x20000
        \<and> cu_addr_map (exec s') ! 2 = 0x250000"
    using d by (auto simp: numeral_2_eq_2 less_Suc_eq)
  with s ok show ?thesis by simp
qed







lemma configure_cu_frame:
  "configure_cu K x cu s = Inr s' \<Longrightarrow> submit_frame x s s'"
  by (auto simp: configure_cu_def Let_def submit_frame_def split: sum.splits)

























lemma reconfigure_xocl:
  assumes "cmds s x = Some c" and "cmd_wait_count c = 0"
      and "opcode (cmd_packet c) = ucast (ERT_CONFIGURE K)" and "configured (exec s)"
  shows "configure K xdev x s = Inr (1, s)"
    and "queued_to_running K xdev x s =
           Inr (False, put_cmd x (c\<lparr>cmd_state := ERT_CMD_STATE_ERROR,
                  cmd_packet := (cmd_packet c)\<lparr>pkt_state := ERT_CMD_STATE_ERROR\<rparr>\<rparr>) s)"
  using assms
  by (simp_all add: configure_def queued_to_running_def set_cmd_state_def Let_def)

lemma reconfigure_zocl:
  assumes c: "z_cmds zs y = Some zc"
      and op: "opcode (z_packet zc) = ucast (OP_CONFIGURE Z)" and conf: "configured (z_exec zs)"
  shows "zocl_configure Z y zs = Inr (1, zs)"
    and "\<forall>r zs'. zocl_queued_to_running Z y zs = Inr (r, zs') \<longrightarrow>
           r \<and> (\<exists>c'. z_cmds zs' y = Some c' \<and> z_state c' = ERT_CMD_STATE_RUNNING)
           \<and> z_exec zs' = (z_exec zs)\<lparr>slot_status := slot_status (z_exec zs'),
                                       submitted_cmds := submitted_cmds (z_exec zs')\<rparr>"
proof -
  show cfg: "zocl_configure Z y zs = Inr (1, zs)"
    using c op conf by (simp add: zocl_configure_def Let_def)
  have acq: "\<And>i e idx e'. acquire_slot_idx_from i e = Inr (idx, e') \<Longrightarrow>
               e' = e\<lparr>slot_status := slot_status e'\<rparr>"
  proof -
    fix i e idx e'
    show "acquire_slot_idx_from i e = Inr (idx, e') \<Longrightarrow> e' = e\<lparr>slot_status := slot_status e'\<rparr>"
    proof (induction i e rule: acquire_slot_idx_from.induct)
      case (1 mask_idx exec)
      from "1.prems" show ?case
        by (subst (asm) acquire_slot_idx_from.simps)
           (auto simp: Let_def split: if_splits sum.splits dest: "1.IH")
    qed
  qed
  show "\<forall>r zs'. zocl_queued_to_running Z y zs = Inr (r, zs') \<longrightarrow>
           r \<and> (\<exists>c'. z_cmds zs' y = Some c' \<and> z_state c' = ERT_CMD_STATE_RUNNING)
           \<and> z_exec zs' = (z_exec zs)\<lparr>slot_status := slot_status (z_exec zs'),
                                       submitted_cmds := submitted_cmds (z_exec zs')\<rparr>"
    using c op cfg
    by (auto simp: zocl_queued_to_running_def zocl_submit_def zocl_penguin_submit_def
        ps_ert_submit_def z_put_cmd_def Let_def acquire_slot_idx_def
        split: sum.splits prod.splits if_splits sched_ops.splits dest!: acq)
qed

text \<open>
  Claim C2, as amended.  In \<open>mb_scheduler.c\<close>, for a CONFIGURE command with no
  unresolved dependency on a core that is already configured, \<open>configure\<close> returns
  failure with the state unchanged and \<open>queued_to_running\<close> changes nothing but the
  command's state, which becomes Error.  In \<open>sched_exec.c\<close>, \<open>configure\<close> also
  returns failure with the state unchanged, but \<open>queued_to_running\<close> ignores the
  result: whenever it returns, the command has been submitted and is Running,
  and of the core only the slot bitmap and the submitted-command table changed.
\<close>

theorem second_configure_rejected:
  "(cmds s x = Some c \<and> cmd_wait_count c = 0
      \<and> opcode (cmd_packet c) = ucast (ERT_CONFIGURE K) \<and> configured (exec s)
    \<longrightarrow> configure K xdev x s = Inr (1, s)
        \<and> queued_to_running K xdev x s =
            Inr (False, put_cmd x (c\<lparr>cmd_state := ERT_CMD_STATE_ERROR,
                   cmd_packet := (cmd_packet c)\<lparr>pkt_state := ERT_CMD_STATE_ERROR\<rparr>\<rparr>) s))
 \<and> (z_cmds zs y = Some zc
      \<and> opcode (z_packet zc) = ucast (OP_CONFIGURE Z) \<and> configured (z_exec zs)
    \<longrightarrow> zocl_configure Z y zs = Inr (1, zs)
        \<and> (\<forall>r zs'. zocl_queued_to_running Z y zs = Inr (r, zs') \<longrightarrow>
              r \<and> (\<exists>c'. z_cmds zs' y = Some c' \<and> z_state c' = ERT_CMD_STATE_RUNNING)
              \<and> z_exec zs' = (z_exec zs)\<lparr>slot_status := slot_status (z_exec zs'),
                                          submitted_cmds := submitted_cmds (z_exec zs')\<rparr>))"
  using reconfigure_xocl [of s x c K xdev] reconfigure_zocl [of zs y zc Z]
  by blast

text \<open>
  Claim C2 as stated fails in the zocl driver: on a configured core a queued
  CONFIGURE command is started and ends up Running, not in Error.
\<close>

theorem second_configure_zocl_counterexample:
  "configured (z_exec zocl_second_configure)
   \<and> map_option (\<lambda>c. pkt_opcode (z_packet c)) (z_cmds zocl_second_configure 0)
       = Some (OP_CONFIGURE sample_sched_abi)
   \<and> (case zocl_queued_to_running sample_sched_abi 0 zocl_second_configure of
         Inl f \<Rightarrow> False
       | Inr (r, zs') \<Rightarrow>
           r \<and> map_option z_state (z_cmds zs' 0) = Some ERT_CMD_STATE_RUNNING)"
  by code_simp

theorem second_configure_rejected_witness:
  "cmds second_configure 0 = Some (queued_cmd (configure_packet 4096 [0x10000]))
   \<and> cmd_wait_count (queued_cmd (configure_packet 4096 [0x10000])) = 0
   \<and> opcode (cmd_packet (queued_cmd (configure_packet 4096 [0x10000])))
        = ucast (ERT_CONFIGURE sample_abi)
   \<and> configured (exec second_configure)
   \<and> configure sample_abi sample_dev 0 second_configure = Inr (1, second_configure)
   \<and> queued_to_running sample_abi sample_dev 0 second_configure =
        Inr (False, put_cmd 0 ((queued_cmd (configure_packet 4096 [0x10000]))
               \<lparr>cmd_state := ERT_CMD_STATE_ERROR,
                cmd_packet := (cmd_packet (queued_cmd (configure_packet 4096 [0x10000])))
                                \<lparr>pkt_state := ERT_CMD_STATE_ERROR\<rparr>\<rparr>) second_configure)
   \<and> z_cmds zocl_second_configure 0 = Some (zocl_queued_cmd (configure_packet 4096 [0x10000]))
   \<and> opcode (z_packet (zocl_queued_cmd (configure_packet 4096 [0x10000])))
        = ucast (OP_CONFIGURE sample_sched_abi)
   \<and> configured (z_exec zocl_second_configure)
   \<and> zocl_configure sample_sched_abi 0 zocl_second_configure = Inr (1, zocl_second_configure)"
proof -
  let ?C = "queued_cmd (configure_packet 4096 [0x10000])"
  let ?Z = "zocl_queued_cmd (configure_packet 4096 [0x10000])"
  have h: "cmds second_configure 0 = Some ?C" "cmd_wait_count ?C = 0"
    by (simp_all add: second_configure_def queued_cmd_def)
  have h3: "opcode (cmd_packet ?C) = ucast (ERT_CONFIGURE sample_abi)" by code_simp
  have h4: "configured (exec second_configure)" by code_simp
  have z: "z_cmds zocl_second_configure 0 = Some ?Z"
    by (simp add: zocl_second_configure_def)
  have z2: "opcode (z_packet ?Z) = ucast (OP_CONFIGURE sample_sched_abi)" by code_simp
  have z3: "configured (z_exec zocl_second_configure)" by code_simp
  from second_configure_rejected [of second_configure 0 ?C sample_abi sample_dev
      zocl_second_configure 0 ?Z sample_sched_abi] h h3 h4 z z2 z3
  show ?thesis by blast
qed



end
